theory Spec2Isabelle
  imports Complex_Main
begin

section \<open>Numbers\<close>

text \<open>
  The ledger of \<^verbatim>\<open>src/backend/portfolioManager.js\<close> computes with JavaScript numbers.
  They are modelled as exact rationals: rounding and overflow of the double format are
  left out. In exact arithmetic the only operation of the ledger that leaves the finite
  numbers is a division by zero, which JavaScript evaluates to \<^verbatim>\<open>Infinity\<close>,
  \<^verbatim>\<open>-Infinity\<close> or \<^verbatim>\<open>NaN\<close> and \<^verbatim>\<open>JSON.stringify\<close> persists as \<^verbatim>\<open>null\<close>. A number
  that may be non-finite is a \<open>rat option\<close>, with \<open>None\<close> for the three non-finite values.
\<close>

definition js_div :: "rat \<Rightarrow> rat \<Rightarrow> rat option" where
  "js_div a b = (if b = 0 then None else Some (a / b))"

definition js_times :: "rat option \<Rightarrow> rat \<Rightarrow> rat option" where
  "js_times x k = map_option (\<lambda>v. v * k) x"

section \<open>Data model\<close>

text \<open>
  A position is a JavaScript object with a \<^verbatim>\<open>type\<close> tag, \<^verbatim>\<open>'stock'\<close> or \<^verbatim>\<open>'option'\<close>, and the
  fields that \<^verbatim>\<open>buyStock\<close> and \<^verbatim>\<open>buyOption\<close> give it. Dates are the ISO strings of
  \<^verbatim>\<open>new Date().toISOString()\<close>.
\<close>

datatype position =
    is_stock: Stock (id_of: string) (symbol: string) (shares: rat) (entryPrice: rat)
      (entryDate: string) (costBasis: rat)
  | is_option: Option (id_of: string) (optionType: string) (symbol: string) (strike: rat)
      (expiration: string) (contracts: rat) (entryPremium: rat) (entryDate: string)
      (costBasis: rat)

text \<open>
  A closed trade is the position spread into a new object, with \<^verbatim>\<open>exitPrice\<close> (stock) or
  \<^verbatim>\<open>exitPremium\<close> (option), \<^verbatim>\<open>exitDate\<close>, \<^verbatim>\<open>proceeds\<close>, \<^verbatim>\<open>profitLoss\<close> and
  \<^verbatim>\<open>percentReturn\<close>.
\<close>

datatype exit_field = ExitPrice rat | ExitPremium rat

record closed_trade =
  closed :: position
  exit_at :: exit_field
  exitDate :: string
  proceeds :: rat
  profitLoss :: rat
  percentReturn :: "rat option"

record portfolio =
  balance :: rat
  openPositions :: "position list"
  closedTrades :: "closed_trade list"
  totalPL :: rat
  createdAt :: string

text \<open>
  The clock readings of one call: \<open>initISO\<close> is the \<^verbatim>\<open>new Date().toISOString()\<close> of
  \<^verbatim>\<open>initializePortfolio\<close> (read only when a portfolio is created), \<open>nowMs\<close> the
  \<^verbatim>\<open>Date.now()\<close> of a position's \<^verbatim>\<open>id\<close>, \<open>nowISO\<close> the \<^verbatim>\<open>new Date().toISOString()\<close>
  of an entry or exit date.
\<close>

record clock =
  initISO :: string
  nowMs :: nat
  nowISO :: string

text \<open>
  The errors the trade functions throw, by their messages:
  \<^verbatim>\<open>Insufficient funds. Available: ..., Required: ...\<close> is \<open>InsufficientFunds\<close>,
  \<^verbatim>\<open>No open position found for ...\<close> and \<^verbatim>\<open>Position not found\<close> are \<open>PositionNotFound\<close>,
  \<^verbatim>\<open>Position is not an option\<close> is \<open>WrongPositionType\<close>. The source has no other
  \<^verbatim>\<open>throw\<close>; \<open>InvalidInput\<close> and \<open>StoreIO\<close> are the two further kinds that the
  specification names, and no function of the source returns them.
\<close>

datatype trade_error =
  InvalidInput | InsufficientFunds | PositionNotFound | WrongPositionType | StoreIO

record open_result =
  position :: position
  newBalance :: rat

record close_result =
  trade :: closed_trade
  closeBalance :: rat

section \<open>The portfolio file\<close>

text \<open>
  \<^verbatim>\<open>portfolio.json\<close> is missing (\<^verbatim>\<open>fs.readFile\<close> rejects with \<^verbatim>\<open>ENOENT\<close>), or its text is
  not JSON (\<^verbatim>\<open>JSON.parse\<close> throws a \<^verbatim>\<open>SyntaxError\<close>), or it is the \<^verbatim>\<open>JSON.stringify\<close> of
  a portfolio. \<^verbatim>\<open>fs.writeFile\<close> is taken to succeed.
\<close>

datatype portfolio_file = Missing | Corrupt | Holds portfolio

datatype read_failure = ENOENT | SyntaxError

definition initializePortfolio :: "string \<Rightarrow> portfolio" where
  "initializePortfolio stamp =
     \<lparr>balance = 1000000, openPositions = [], closedTrades = [], totalPL = 0,
      createdAt = stamp\<rparr>"

definition savePortfolio :: "portfolio \<Rightarrow> portfolio_file \<Rightarrow> portfolio_file" where
  "savePortfolio p f = Holds p"

text \<open>The body of the \<^verbatim>\<open>try\<close> in \<^verbatim>\<open>loadPortfolio\<close>: read the file, parse the text.\<close>

definition readPortfolio :: "portfolio_file \<Rightarrow> read_failure + portfolio" where
  "readPortfolio f =
     (case f of Missing \<Rightarrow> Inl ENOENT | Corrupt \<Rightarrow> Inl SyntaxError | Holds p \<Rightarrow> Inr p)"

text \<open>
  \<^verbatim>\<open>loadPortfolio\<close>: the \<^verbatim>\<open>catch (error)\<close> handles every failure of the \<^verbatim>\<open>try\<close> the same
  way, by creating and saving a new portfolio. The result is a portfolio or an error, and
  the file afterwards.
\<close>

definition loadPortfolio ::
  "string \<Rightarrow> portfolio_file \<Rightarrow> (trade_error + portfolio) \<times> portfolio_file" where
  "loadPortfolio stamp f =
     (case readPortfolio f of
        Inr p \<Rightarrow> (Inr p, f)
      | Inl error \<Rightarrow>
          (let newPortfolio = initializePortfolio stamp
           in (Inr newPortfolio, savePortfolio newPortfolio f)))"

definition resetPortfolio :: "string \<Rightarrow> portfolio_file \<Rightarrow> portfolio \<times> portfolio_file" where
  "resetPortfolio stamp f =
     (let newPortfolio = initializePortfolio stamp
      in (newPortfolio, savePortfolio newPortfolio f))"

section \<open>Position identifiers\<close>

text \<open>\<^verbatim>\<open>Date.now().toString()\<close>: the decimal digits of the millisecond count.\<close>

definition digit_char :: "nat \<Rightarrow> char" where
  "digit_char d = ''0123456789'' ! d"

function toString :: "nat \<Rightarrow> string" where
  "toString n = (if n < 10 then [digit_char n] else toString (n div 10) @ [digit_char (n mod 10)])"
  by pat_completeness auto
termination
  by (relation "measure id") auto

declare toString.simps [simp del]

section \<open>Opening positions\<close>

text \<open>
  Each trade function loads the portfolio, works on the loaded object and saves it. The
  part between \<^verbatim>\<open>loadPortfolio\<close> and \<^verbatim>\<open>savePortfolio\<close> is a function of the loaded
  portfolio (suffix \<open>_on\<close>); the function of the source's name runs it on the file.
\<close>

definition buyStock_on ::
  "clock \<Rightarrow> string \<Rightarrow> rat \<Rightarrow> rat \<Rightarrow> portfolio \<Rightarrow> trade_error + (open_result \<times> portfolio)" where
  "buyStock_on ck symb qty price pf =
     (let cost = qty * price in
      if cost > balance pf then Inl InsufficientFunds
      else
        let pos = Stock (toString (nowMs ck)) symb qty price (nowISO ck) cost;
            pf' = pf\<lparr>balance := balance pf - cost, openPositions := openPositions pf @ [pos]\<rparr>
        in Inr (\<lparr>position = pos, newBalance = balance pf'\<rparr>, pf'))"

definition buyOption_on ::
  "clock \<Rightarrow> string \<Rightarrow> string \<Rightarrow> rat \<Rightarrow> string \<Rightarrow> rat \<Rightarrow> rat \<Rightarrow> portfolio
     \<Rightarrow> trade_error + (open_result \<times> portfolio)" where
  "buyOption_on ck symb type strk expir premium cons pf =
     (let cost = premium * 100 * cons in
      if cost > balance pf then Inl InsufficientFunds
      else
        let pos = Option (toString (nowMs ck)) type symb strk expir cons premium (nowISO ck) cost;
            pf' = pf\<lparr>balance := balance pf - cost, openPositions := openPositions pf @ [pos]\<rparr>
        in Inr (\<lparr>position = pos, newBalance = balance pf'\<rparr>, pf'))"

text \<open>
  Running a transaction body on the file: load, apply, and save when the body did not
  throw. A body that throws leaves \<^verbatim>\<open>savePortfolio\<close> uncalled.
\<close>

definition on_file ::
  "clock \<Rightarrow> (portfolio \<Rightarrow> trade_error + ('r \<times> portfolio)) \<Rightarrow> portfolio_file
     \<Rightarrow> (trade_error + 'r) \<times> portfolio_file" where
  "on_file ck body f =
     (case loadPortfolio (initISO ck) f of
        (Inl e, f1) \<Rightarrow> (Inl e, f1)
      | (Inr pf, f1) \<Rightarrow>
          (case body pf of
             Inl e \<Rightarrow> (Inl e, f1)
           | Inr (r, pf') \<Rightarrow> (Inr r, savePortfolio pf' f1)))"

definition buyStock ::
  "clock \<Rightarrow> string \<Rightarrow> rat \<Rightarrow> rat \<Rightarrow> portfolio_file \<Rightarrow> (trade_error + open_result) \<times> portfolio_file" where
  "buyStock ck symb qty price = on_file ck (buyStock_on ck symb qty price)"

definition buyOption ::
  "clock \<Rightarrow> string \<Rightarrow> string \<Rightarrow> rat \<Rightarrow> string \<Rightarrow> rat \<Rightarrow> rat \<Rightarrow> portfolio_file
     \<Rightarrow> (trade_error + open_result) \<times> portfolio_file" where
  "buyOption ck symb type strk expir premium cons =
     on_file ck (buyOption_on ck symb type strk expir premium cons)"

section \<open>Closing positions\<close>

text \<open>
  \<^verbatim>\<open>Array.prototype.findIndex\<close>: the index of the first element that satisfies the test;
  \<open>None\<close> is the source's \<^verbatim>\<open>-1\<close>. \<^verbatim>\<open>splice(i, 1)\<close> removes the element at index \<open>i\<close>.
\<close>

fun findIndex :: "('a \<Rightarrow> bool) \<Rightarrow> 'a list \<Rightarrow> nat option" where
  "findIndex test [] = None"
| "findIndex test (x # xs) = (if test x then Some 0 else map_option Suc (findIndex test xs))"

definition splice1 :: "nat \<Rightarrow> 'a list \<Rightarrow> 'a list" where
  "splice1 i xs = take i xs @ drop (Suc i) xs"

definition sellStock_on ::
  "clock \<Rightarrow> string \<Rightarrow> rat \<Rightarrow> portfolio \<Rightarrow> trade_error + (close_result \<times> portfolio)" where
  "sellStock_on ck symb currentPrice pf =
     (case findIndex (\<lambda>p. is_stock p \<and> symbol p = symb) (openPositions pf) of
        None \<Rightarrow> Inl PositionNotFound
      | Some positionIndex \<Rightarrow>
          let pos = openPositions pf ! positionIndex;
              pr = shares pos * currentPrice;
              pl = pr - costBasis pos;
              pct = js_times (js_div pl (costBasis pos)) 100;
              closedTrade = \<lparr>closed = pos, exit_at = ExitPrice currentPrice,
                 exitDate = nowISO ck, proceeds = pr, profitLoss = pl, percentReturn = pct\<rparr>;
              pf' = pf\<lparr>balance := balance pf + pr, totalPL := totalPL pf + pl,
                 openPositions := splice1 positionIndex (openPositions pf),
                 closedTrades := closedTrades pf @ [closedTrade]\<rparr>
          in Inr (\<lparr>trade = closedTrade, closeBalance = balance pf'\<rparr>, pf'))"

definition closeOption_on ::
  "clock \<Rightarrow> string \<Rightarrow> rat \<Rightarrow> portfolio \<Rightarrow> trade_error + (close_result \<times> portfolio)" where
  "closeOption_on ck positionId exitPremium pf =
     (case findIndex (\<lambda>p. id_of p = positionId) (openPositions pf) of
        None \<Rightarrow> Inl PositionNotFound
      | Some positionIndex \<Rightarrow>
          let pos = openPositions pf ! positionIndex in
          if \<not> is_option pos then Inl WrongPositionType
          else
            let pr = exitPremium * 100 * contracts pos;
                pl = pr - costBasis pos;
                pct = js_times (js_div pl (costBasis pos)) 100;
                closedTrade = \<lparr>closed = pos, exit_at = ExitPremium exitPremium,
                   exitDate = nowISO ck, proceeds = pr, profitLoss = pl, percentReturn = pct\<rparr>;
                pf' = pf\<lparr>balance := balance pf + pr, totalPL := totalPL pf + pl,
                   openPositions := splice1 positionIndex (openPositions pf),
                   closedTrades := closedTrades pf @ [closedTrade]\<rparr>
            in Inr (\<lparr>trade = closedTrade, closeBalance = balance pf'\<rparr>, pf'))"

definition sellStock ::
  "clock \<Rightarrow> string \<Rightarrow> rat \<Rightarrow> portfolio_file \<Rightarrow> (trade_error + close_result) \<times> portfolio_file" where
  "sellStock ck symb currentPrice = on_file ck (sellStock_on ck symb currentPrice)"

definition closeOption ::
  "clock \<Rightarrow> string \<Rightarrow> rat \<Rightarrow> portfolio_file \<Rightarrow> (trade_error + close_result) \<times> portfolio_file" where
  "closeOption ck positionId exitPremium = on_file ck (closeOption_on ck positionId exitPremium)"

section \<open>Valuation\<close>

text \<open>
  \<^verbatim>\<open>getPortfolio(getCurrentPrice)\<close>: the price lookup is a function from a symbol to a price
  or to the value its promise rejects with (equally, the value it throws). The
  \<^verbatim>\<open>catch (err)\<close> of the valuation reads \<^verbatim>\<open>err.message\<close>, which is a \<^verbatim>\<open>TypeError\<close> when
  \<^verbatim>\<open>err\<close> is \<^verbatim>\<open>undefined\<close> or \<^verbatim>\<open>null\<close> and is harmless for every other value (an \<^verbatim>\<open>Error\<close>,
  a string): a rejection is \<open>Nullish\<close> or a \<open>Reason\<close>.
\<close>

datatype rejection = Nullish | Reason

datatype view_error = LoadFailed trade_error | TypeError

text \<open>
  A valued position is the position spread into a new object with \<^verbatim>\<open>currentPrice\<close> (stock)
  or \<^verbatim>\<open>underlyingPrice\<close> (option), both the field \<open>quote\<close> here and absent after a failed
  lookup, and the three valuation fields.
\<close>

record valued_position =
  held :: position
  quote :: "rat option"
  currentValue :: rat
  unrealizedPL :: rat
  unrealizedPercent :: "rat option"

record portfolio_view =
  view_balance :: rat
  view_openPositions :: "valued_position list"
  view_closedTrades :: "closed_trade list"
  view_totalPL :: rat
  totalUnrealizedPL :: rat
  totalPortfolioValue :: rat
  totalReturn :: rat
  totalReturnPercent :: rat

text \<open>The \<^verbatim>\<open>async (position) => ...\<close> that is mapped over the open positions.\<close>

definition value_position ::
  "(string \<Rightarrow> rejection + rat) \<Rightarrow> position \<Rightarrow> view_error + valued_position" where
  "value_position getCurrentPrice pos =
     (case getCurrentPrice (symbol pos) of
        Inr currentPrice \<Rightarrow>
          if is_stock pos then
            let cv = shares pos * currentPrice;
                upl = cv - costBasis pos;
                upct = js_times (js_div upl (costBasis pos)) 100
            in Inr \<lparr>held = pos, quote = Some currentPrice, currentValue = cv,
                unrealizedPL = upl, unrealizedPercent = upct\<rparr>
          else
            Inr \<lparr>held = pos, quote = Some currentPrice, currentValue = costBasis pos,
             unrealizedPL = 0, unrealizedPercent = Some 0\<rparr>
      | Inl err \<Rightarrow>
          (case err of
             Nullish \<Rightarrow> Inl TypeError
           | Reason \<Rightarrow>
               Inr \<lparr>held = pos, quote = None, currentValue = costBasis pos,
                 unrealizedPL = 0, unrealizedPercent = Some 0\<rparr>))"

text \<open>
  \<^verbatim>\<open>Promise.all\<close>: the list of the values when every promise is fulfilled, and a rejection
  when one of them rejects.
\<close>

fun promise_all :: "('e + 'a) list \<Rightarrow> 'e + 'a list" where
  "promise_all [] = Inr []"
| "promise_all (Inl e # ps) = Inl e"
| "promise_all (Inr v # ps) = (case promise_all ps of Inl e \<Rightarrow> Inl e | Inr vs \<Rightarrow> Inr (v # vs))"

definition getPortfolio ::
  "string \<Rightarrow> (string \<Rightarrow> rejection + rat) \<Rightarrow> portfolio_file
     \<Rightarrow> (view_error + portfolio_view) \<times> portfolio_file" where
  "getPortfolio stamp getCurrentPrice f =
     (case loadPortfolio stamp f of
        (Inl e, f1) \<Rightarrow> (Inl (LoadFailed e), f1)
      | (Inr pf, f1) \<Rightarrow>
          (case promise_all (map (value_position getCurrentPrice) (openPositions pf)) of
             Inl e \<Rightarrow> (Inl e, f1)
           | Inr openPositionsWithValues \<Rightarrow>
               let tpv = balance pf
                     + foldl (\<lambda>sum pos. sum + currentValue pos) 0 openPositionsWithValues;
                   tupl = foldl (\<lambda>sum pos. sum + unrealizedPL pos) 0 openPositionsWithValues
               in (Inr \<lparr>view_balance = balance pf,
                        view_openPositions = openPositionsWithValues,
                        view_closedTrades = closedTrades pf,
                        view_totalPL = totalPL pf,
                        totalUnrealizedPL = tupl,
                        totalPortfolioValue = tpv,
                        totalReturn = tpv - 1000000,
                        totalReturnPercent = ((tpv - 1000000) / 1000000) * 100\<rparr>, f1)))"

section \<open>Sequences of operations\<close>

datatype operation =
    OpenStock string rat rat
  | CloseStock string rat
  | OpenOption string string rat string rat rat
  | CloseOption string rat
  | Reset

datatype outcome = Opened open_result | Closed close_result | Fresh portfolio

definition lift_result :: "('a \<Rightarrow> outcome) \<Rightarrow> (trade_error + 'a) \<times> portfolio_file
    \<Rightarrow> (trade_error + outcome) \<times> portfolio_file" where
  "lift_result tag r = (map_sum (\<lambda>e. e) tag (fst r), snd r)"

fun perform :: "clock \<Rightarrow> operation \<Rightarrow> portfolio_file \<Rightarrow> (trade_error + outcome) \<times> portfolio_file" where
  "perform ck (OpenStock symb qty price) f = lift_result Opened (buyStock ck symb qty price f)"
| "perform ck (CloseStock symb currentPrice) f = lift_result Closed (sellStock ck symb currentPrice f)"
| "perform ck (OpenOption symb type strk expir premium cons) f =
     lift_result Opened (buyOption ck symb type strk expir premium cons f)"
| "perform ck (CloseOption positionId exitPremium) f =
     lift_result Closed (closeOption ck positionId exitPremium f)"
| "perform ck Reset f = (case resetPortfolio (initISO ck) f of (pf, f1) \<Rightarrow> (Inr (Fresh pf), f1))"

text \<open>
  A run of calls, one after the other, each with its clock readings; a call that throws
  is answered with its error and the run goes on from the file it leaves.
\<close>

fun execute :: "(clock \<times> operation) list \<Rightarrow> portfolio_file \<Rightarrow> portfolio_file" where
  "execute [] f = f"
| "execute ((ck, op) # rest) f = execute rest (snd (perform ck op f))"

section \<open>Solvency\<close>

text \<open>A file is solvent when the portfolio it holds, if any, has a balance of at least zero.\<close>

definition solvent :: "portfolio_file \<Rightarrow> bool" where
  "solvent f = (case f of Holds pf \<Rightarrow> 0 \<le> balance pf | _ \<Rightarrow> True)"

section \<open>JavaScript numbers with their non-finite values\<close>

text \<open>
  An order property of the balance is not the same for exact rationals and for JavaScript
  numbers, which have \<^verbatim>\<open>NaN\<close> and the infinities. For the solvency of runs the ledger is
  embedded a second time, over values that are a finite number, \<^verbatim>\<open>Infinity\<close>, \<^verbatim>\<open>-Infinity\<close>,
  \<^verbatim>\<open>NaN\<close>, or \<^verbatim>\<open>null\<close>: \<^verbatim>\<open>JSON.stringify\<close> writes \<^verbatim>\<open>null\<close> for the three non-finite
  numbers, so that \<^verbatim>\<open>null\<close> is what the next call loads, and arithmetic and comparisons
  take \<^verbatim>\<open>null\<close> as 0. Negative zero is not told from zero: it decides only the sign of an
  infinite \<^verbatim>\<open>percentReturn\<close>, which is written as \<^verbatim>\<open>null\<close> either way.
\<close>

datatype jsval = Fin rat | PosInf | NegInf | NaN | Null

text \<open>
  The rounding of an exact result to a number, the same for every operation, is a
  parameter: it gives the nearest double, or an infinity when the result overflows.
\<close>

type_synonym rounding = "rat \<Rightarrow> jsval"

text \<open>\<^verbatim>\<open>ToNumber\<close>, applied to the operands of \<^verbatim>\<open>*\<close>, \<^verbatim>\<open>+\<close>, \<^verbatim>\<open>-\<close>, \<^verbatim>\<open>/\<close> and \<^verbatim>\<open>>\<close>.\<close>

fun to_number :: "jsval \<Rightarrow> jsval" where
  "to_number Null = Fin 0"
| "to_number v = v"

definition signed_inf :: "rat \<Rightarrow> jsval" where
  "signed_inf x = (if x = 0 then NaN else if 0 < x then PosInf else NegInf)"

fun mul_num :: "rounding \<Rightarrow> jsval \<Rightarrow> jsval \<Rightarrow> jsval" where
  "mul_num rnd (Fin x) (Fin y) = rnd (x * y)"
| "mul_num rnd (Fin x) PosInf = signed_inf x"
| "mul_num rnd (Fin x) NegInf = signed_inf (- x)"
| "mul_num rnd PosInf (Fin y) = signed_inf y"
| "mul_num rnd NegInf (Fin y) = signed_inf (- y)"
| "mul_num rnd PosInf PosInf = PosInf"
| "mul_num rnd PosInf NegInf = NegInf"
| "mul_num rnd NegInf PosInf = NegInf"
| "mul_num rnd NegInf NegInf = PosInf"
| "mul_num rnd a b = NaN"

fun add_num :: "rounding \<Rightarrow> jsval \<Rightarrow> jsval \<Rightarrow> jsval" where
  "add_num rnd (Fin x) (Fin y) = rnd (x + y)"
| "add_num rnd (Fin x) PosInf = PosInf"
| "add_num rnd (Fin x) NegInf = NegInf"
| "add_num rnd PosInf (Fin y) = PosInf"
| "add_num rnd NegInf (Fin y) = NegInf"
| "add_num rnd PosInf PosInf = PosInf"
| "add_num rnd NegInf NegInf = NegInf"
| "add_num rnd a b = NaN"

fun neg_num :: "jsval \<Rightarrow> jsval" where
  "neg_num (Fin x) = Fin (- x)"
| "neg_num PosInf = NegInf"
| "neg_num NegInf = PosInf"
| "neg_num v = NaN"

fun div_num :: "rounding \<Rightarrow> jsval \<Rightarrow> jsval \<Rightarrow> jsval" where
  "div_num rnd (Fin x) (Fin y) = (if y = 0 then signed_inf x else rnd (x / y))"
| "div_num rnd (Fin x) PosInf = Fin 0"
| "div_num rnd (Fin x) NegInf = Fin 0"
| "div_num rnd PosInf (Fin y) = (if 0 \<le> y then PosInf else NegInf)"
| "div_num rnd NegInf (Fin y) = (if 0 \<le> y then NegInf else PosInf)"
| "div_num rnd a b = NaN"

fun gt_num :: "jsval \<Rightarrow> jsval \<Rightarrow> bool" where
  "gt_num (Fin x) (Fin y) = (y < x)"
| "gt_num PosInf (Fin y) = True"
| "gt_num PosInf NegInf = True"
| "gt_num (Fin x) NegInf = True"
| "gt_num a b = False"

definition js_mul :: "rounding \<Rightarrow> jsval \<Rightarrow> jsval \<Rightarrow> jsval" where
  "js_mul rnd a b = mul_num rnd (to_number a) (to_number b)"

definition js_add :: "rounding \<Rightarrow> jsval \<Rightarrow> jsval \<Rightarrow> jsval" where
  "js_add rnd a b = add_num rnd (to_number a) (to_number b)"

definition js_sub :: "rounding \<Rightarrow> jsval \<Rightarrow> jsval \<Rightarrow> jsval" where
  "js_sub rnd a b = add_num rnd (to_number a) (neg_num (to_number b))"

definition js_quot :: "rounding \<Rightarrow> jsval \<Rightarrow> jsval \<Rightarrow> jsval" where
  "js_quot rnd a b = div_num rnd (to_number a) (to_number b)"

definition js_gt :: "jsval \<Rightarrow> jsval \<Rightarrow> bool" where
  "js_gt a b = gt_num (to_number a) (to_number b)"

text \<open>A number after \<^verbatim>\<open>JSON.stringify\<close> and \<^verbatim>\<open>JSON.parse\<close>.\<close>

definition json_num :: "jsval \<Rightarrow> jsval" where
  "json_num v = (case v of Fin x \<Rightarrow> Fin x | _ \<Rightarrow> Null)"

text \<open>
  What is asked of the rounding: a result of at least zero is rounded to a number of at
  least zero or to \<^verbatim>\<open>Infinity\<close>. Rounding to the nearest double is such a rounding.
\<close>

definition rounds_nonneg :: "rounding \<Rightarrow> bool" where
  "rounds_nonneg rnd \<longleftrightarrow> (\<forall>x. 0 \<le> x \<longrightarrow> (\<exists>y. 0 \<le> y \<and> rnd x = Fin y) \<or> rnd x = PosInf)"

text \<open>
  A rounding for the examples: exact up to the largest double, infinite beyond it.
\<close>

definition max_double :: rat where
  "max_double = 2 ^ 1024 - 2 ^ 971"

definition exact_until_overflow :: rounding where
  "exact_until_overflow x =
     (if max_double < x then PosInf else if x < - max_double then NegInf else Fin x)"

text \<open>
  \<open>is_nonneg v\<close> is the JavaScript comparison \<^verbatim>\<open>v >= 0\<close>; \<open>nn v\<close> is \<^verbatim>\<open>!(v < 0)\<close> of a number
  or \<^verbatim>\<open>null\<close>; \<open>kept_nonneg v\<close> is the same of a value read from the file, which is a
  finite number or \<^verbatim>\<open>null\<close>.
\<close>

definition is_nonneg :: "jsval \<Rightarrow> bool" where
  "is_nonneg v = (case to_number v of Fin x \<Rightarrow> 0 \<le> x | PosInf \<Rightarrow> True | _ \<Rightarrow> False)"

definition nn :: "jsval \<Rightarrow> bool" where
  "nn v = (case to_number v of Fin x \<Rightarrow> 0 \<le> x | PosInf \<Rightarrow> True | NaN \<Rightarrow> True | _ \<Rightarrow> False)"

definition kept_nonneg :: "jsval \<Rightarrow> bool" where
  "kept_nonneg v = (case v of Fin x \<Rightarrow> 0 \<le> x | Null \<Rightarrow> True | _ \<Rightarrow> False)"

section \<open>The ledger over JavaScript numbers\<close>

text \<open>
  The data and the trade functions once more, as in the sections above and with the same
  clock, identifiers, \<open>findIndex\<close> and \<open>splice1\<close>, with every number a \<open>jsval\<close> and every
  arithmetic operation rounded. The objects the functions return (\<^verbatim>\<open>position\<close>, \<^verbatim>\<open>trade\<close>,
  \<^verbatim>\<open>newBalance\<close>) are parts of the portfolio that is saved and are left out.
\<close>

datatype js_position =
    js_is_stock: JsStock (js_id: string) (js_symbol: string) (js_shares: jsval)
      (js_entryPrice: jsval) (js_entryDate: string) (js_costBasis: jsval)
  | js_is_option: JsOption (js_id: string) (js_optionType: string) (js_symbol: string)
      (js_strike: jsval) (js_expiration: string) (js_contracts: jsval)
      (js_entryPremium: jsval) (js_entryDate: string) (js_costBasis: jsval)

datatype js_exit = JsExitPrice jsval | JsExitPremium jsval

record js_closed_trade =
  js_closed :: js_position
  js_exit_at :: js_exit
  js_exitDate :: string
  js_proceeds :: jsval
  js_profitLoss :: jsval
  js_percentReturn :: jsval

record js_portfolio =
  js_balance :: jsval
  js_openPositions :: "js_position list"
  js_closedTrades :: "js_closed_trade list"
  js_totalPL :: jsval
  js_createdAt :: string

datatype js_file = JsMissing | JsCorrupt | JsHolds js_portfolio

text \<open>
  The errors thrown. Building the message of \<^verbatim>\<open>Insufficient funds\<close> calls
  \<^verbatim>\<open>portfolio.balance.toFixed(2)\<close>, which is a \<^verbatim>\<open>TypeError\<close> when the balance is \<^verbatim>\<open>null\<close>.
\<close>

datatype js_error = JsInsufficientFunds | JsTypeError | JsPositionNotFound | JsWrongPositionType

text \<open>A portfolio after \<^verbatim>\<open>JSON.stringify\<close> and \<^verbatim>\<open>JSON.parse\<close>.\<close>

fun json_position :: "js_position \<Rightarrow> js_position" where
  "json_position (JsStock i s sh ep ed cb) =
     JsStock i s (json_num sh) (json_num ep) ed (json_num cb)"
| "json_position (JsOption i ot s st ex cn pr ed cb) =
     JsOption i ot s (json_num st) ex (json_num cn) (json_num pr) ed (json_num cb)"

fun json_exit :: "js_exit \<Rightarrow> js_exit" where
  "json_exit (JsExitPrice v) = JsExitPrice (json_num v)"
| "json_exit (JsExitPremium v) = JsExitPremium (json_num v)"

definition json_trade :: "js_closed_trade \<Rightarrow> js_closed_trade" where
  "json_trade t =
     \<lparr>js_closed = json_position (js_closed t), js_exit_at = json_exit (js_exit_at t),
      js_exitDate = js_exitDate t, js_proceeds = json_num (js_proceeds t),
      js_profitLoss = json_num (js_profitLoss t),
      js_percentReturn = json_num (js_percentReturn t)\<rparr>"

definition json_portfolio :: "js_portfolio \<Rightarrow> js_portfolio" where
  "json_portfolio p =
     \<lparr>js_balance = json_num (js_balance p),
      js_openPositions = map json_position (js_openPositions p),
      js_closedTrades = map json_trade (js_closedTrades p),
      js_totalPL = json_num (js_totalPL p), js_createdAt = js_createdAt p\<rparr>"

definition js_initializePortfolio :: "string \<Rightarrow> js_portfolio" where
  "js_initializePortfolio stamp =
     \<lparr>js_balance = Fin 1000000, js_openPositions = [], js_closedTrades = [],
      js_totalPL = Fin 0, js_createdAt = stamp\<rparr>"

definition js_savePortfolio :: "js_portfolio \<Rightarrow> js_file \<Rightarrow> js_file" where
  "js_savePortfolio p f = JsHolds (json_portfolio p)"

definition js_loadPortfolio :: "string \<Rightarrow> js_file \<Rightarrow> js_portfolio \<times> js_file" where
  "js_loadPortfolio stamp f =
     (case f of
        JsHolds p \<Rightarrow> (p, f)
      | _ \<Rightarrow>
          (let newPortfolio = js_initializePortfolio stamp
           in (newPortfolio, js_savePortfolio newPortfolio f)))"

definition js_insufficient :: "js_portfolio \<Rightarrow> js_error" where
  "js_insufficient pf = (if js_balance pf = Null then JsTypeError else JsInsufficientFunds)"

definition js_buyStock_on ::
  "rounding \<Rightarrow> clock \<Rightarrow> string \<Rightarrow> jsval \<Rightarrow> jsval \<Rightarrow> js_portfolio \<Rightarrow> js_error + js_portfolio" where
  "js_buyStock_on rnd ck symb qty price pf =
     (let cost = js_mul rnd qty price in
      if js_gt cost (js_balance pf) then Inl (js_insufficient pf)
      else
        let pos = JsStock (toString (nowMs ck)) symb qty price (nowISO ck) cost
        in Inr (pf\<lparr>js_balance := js_sub rnd (js_balance pf) cost,
                  js_openPositions := js_openPositions pf @ [pos]\<rparr>))"

definition js_buyOption_on ::
  "rounding \<Rightarrow> clock \<Rightarrow> string \<Rightarrow> string \<Rightarrow> jsval \<Rightarrow> string \<Rightarrow> jsval \<Rightarrow> jsval \<Rightarrow> js_portfolio
     \<Rightarrow> js_error + js_portfolio" where
  "js_buyOption_on rnd ck symb type strk expir premium cons pf =
     (let cost = js_mul rnd (js_mul rnd premium (Fin 100)) cons in
      if js_gt cost (js_balance pf) then Inl (js_insufficient pf)
      else
        let pos = JsOption (toString (nowMs ck)) type symb strk expir cons premium (nowISO ck) cost
        in Inr (pf\<lparr>js_balance := js_sub rnd (js_balance pf) cost,
                  js_openPositions := js_openPositions pf @ [pos]\<rparr>))"

text \<open>The lines that \<^verbatim>\<open>sellStock\<close> and \<^verbatim>\<open>closeOption\<close> share, from \<^verbatim>\<open>profitLoss\<close> on.\<close>

definition js_close ::
  "rounding \<Rightarrow> clock \<Rightarrow> nat \<Rightarrow> js_exit \<Rightarrow> jsval \<Rightarrow> js_portfolio \<Rightarrow> js_portfolio" where
  "js_close rnd ck positionIndex ex pr pf =
     (let pos = js_openPositions pf ! positionIndex;
          pl = js_sub rnd pr (js_costBasis pos);
          pct = js_mul rnd (js_quot rnd pl (js_costBasis pos)) (Fin 100);
          closedTrade = \<lparr>js_closed = pos, js_exit_at = ex, js_exitDate = nowISO ck,
             js_proceeds = pr, js_profitLoss = pl, js_percentReturn = pct\<rparr>
      in pf\<lparr>js_balance := js_add rnd (js_balance pf) pr,
            js_totalPL := js_add rnd (js_totalPL pf) pl,
            js_openPositions := splice1 positionIndex (js_openPositions pf),
            js_closedTrades := js_closedTrades pf @ [closedTrade]\<rparr>)"

definition js_sellStock_on ::
  "rounding \<Rightarrow> clock \<Rightarrow> string \<Rightarrow> jsval \<Rightarrow> js_portfolio \<Rightarrow> js_error + js_portfolio" where
  "js_sellStock_on rnd ck symb currentPrice pf =
     (case findIndex (\<lambda>p. js_is_stock p \<and> js_symbol p = symb) (js_openPositions pf) of
        None \<Rightarrow> Inl JsPositionNotFound
      | Some positionIndex \<Rightarrow>
          let pos = js_openPositions pf ! positionIndex;
              pr = js_mul rnd (js_shares pos) currentPrice
          in Inr (js_close rnd ck positionIndex (JsExitPrice currentPrice) pr pf))"

definition js_closeOption_on ::
  "rounding \<Rightarrow> clock \<Rightarrow> string \<Rightarrow> jsval \<Rightarrow> js_portfolio \<Rightarrow> js_error + js_portfolio" where
  "js_closeOption_on rnd ck positionId exitPremium pf =
     (case findIndex (\<lambda>p. js_id p = positionId) (js_openPositions pf) of
        None \<Rightarrow> Inl JsPositionNotFound
      | Some positionIndex \<Rightarrow>
          let pos = js_openPositions pf ! positionIndex in
          if \<not> js_is_option pos then Inl JsWrongPositionType
          else
            let pr = js_mul rnd (js_mul rnd exitPremium (Fin 100)) (js_contracts pos)
            in Inr (js_close rnd ck positionIndex (JsExitPremium exitPremium) pr pf))"

datatype js_operation =
    JsOpenStock string jsval jsval
  | JsCloseStock string jsval
  | JsOpenOption string string jsval string jsval jsval
  | JsCloseOption string jsval
  | JsReset

fun js_body :: "rounding \<Rightarrow> clock \<Rightarrow> js_operation \<Rightarrow> js_portfolio \<Rightarrow> js_error + js_portfolio" where
  "js_body rnd ck (JsOpenStock symb qty price) = js_buyStock_on rnd ck symb qty price"
| "js_body rnd ck (JsCloseStock symb currentPrice) = js_sellStock_on rnd ck symb currentPrice"
| "js_body rnd ck (JsOpenOption symb type strk expir premium cons) =
     js_buyOption_on rnd ck symb type strk expir premium cons"
| "js_body rnd ck (JsCloseOption positionId exitPremium) =
     js_closeOption_on rnd ck positionId exitPremium"
| "js_body rnd ck JsReset = (\<lambda>pf. Inr (js_initializePortfolio (initISO ck)))"

definition js_perform ::
  "rounding \<Rightarrow> clock \<Rightarrow> js_operation \<Rightarrow> js_file \<Rightarrow> js_error option \<times> js_file" where
  "js_perform rnd ck op f =
     (if op = JsReset then
        (None, js_savePortfolio (js_initializePortfolio (initISO ck)) f)
      else
        (case js_loadPortfolio (initISO ck) f of
           (pf, f1) \<Rightarrow>
             (case js_body rnd ck op pf of
                Inl e \<Rightarrow> (Some e, f1)
              | Inr pf' \<Rightarrow> (None, js_savePortfolio pf' f1))))"

fun js_execute :: "rounding \<Rightarrow> (clock \<times> js_operation) list \<Rightarrow> js_file \<Rightarrow> js_file" where
  "js_execute rnd [] f = f"
| "js_execute rnd ((ck, op) # rest) f = js_execute rnd rest (snd (js_perform rnd ck op f))"

text \<open>
  The calls whose quantity (opens) or price (closes) satisfies \<^verbatim>\<open>x >= 0\<close>, and the files
  whose balance is not negative: a number of at least zero, or \<^verbatim>\<open>null\<close>.
\<close>

fun js_nonneg_args :: "js_operation \<Rightarrow> bool" where
  "js_nonneg_args (JsOpenStock symb qty price) = is_nonneg qty"
| "js_nonneg_args (JsCloseStock symb currentPrice) = is_nonneg currentPrice"
| "js_nonneg_args (JsOpenOption symb type strk expir premium cons) = is_nonneg cons"
| "js_nonneg_args (JsCloseOption positionId exitPremium) = is_nonneg exitPremium"
| "js_nonneg_args JsReset = True"

definition js_solvent :: "js_file \<Rightarrow> bool" where
  "js_solvent f = (case f of JsHolds pf \<Rightarrow> kept_nonneg (js_balance pf) | _ \<Rightarrow> True)"

fun js_long :: "js_position \<Rightarrow> bool" where
  "js_long (JsStock i s sh ep ed cb) = nn sh"
| "js_long (JsOption i ot s st ex cn pr ed cb) = nn cn"

definition js_sound :: "js_portfolio \<Rightarrow> bool" where
  "js_sound pf \<longleftrightarrow> nn (js_balance pf) \<and> list_all js_long (js_openPositions pf)"

definition js_sound_file :: "js_file \<Rightarrow> bool" where
  "js_sound_file f =
     (case f of JsHolds pf \<Rightarrow> kept_nonneg (js_balance pf) \<and> js_sound pf | _ \<Rightarrow> True)"

section \<open>Overlapping calls\<close>

text \<open>
  The trade functions are \<^verbatim>\<open>async\<close>: a call runs until its \<^verbatim>\<open>await loadPortfolio()\<close>,
  where the file is read, and goes on, once the text has arrived, from the loaded object to
  its \<^verbatim>\<open>await savePortfolio(portfolio)\<close>. Node runs one such piece at a time, and pieces of
  other calls may run between them. The source holds no lock, queue or version check.

  \<^verbatim>\<open>savePortfolio\<close> is an awaited \<^verbatim>\<open>fs.writeFile\<close>, which is not one step either: it opens the
  file, which truncates it, and writes the text from the start of the file afterwards.
  Between the two, the file is empty, and another call may open the file or write its text.
  What the file holds is therefore described by whether it exists, by the portfolio its
  text is the JSON of, if any, and by the length of the text.
\<close>

record disk =
  present :: bool
  parsed :: "portfolio option"
  bytes :: nat

definition as_file :: "disk \<Rightarrow> portfolio_file" where
  "as_file d =
     (if \<not> present d then Missing
      else case parsed d of None \<Rightarrow> Corrupt | Some p \<Rightarrow> Holds p)"

text \<open>
  The length of \<^verbatim>\<open>JSON.stringify(portfolio, null, 2)\<close> is a parameter, \<open>len\<close>. A write that
  nothing interferes with leaves the whole text. Opening leaves the empty text, which is
  not JSON. Writing a text over what the file holds after the open leaves the text, and
  behind it the rest of a longer text that another call wrote in between: such a file is
  not JSON.
\<close>

definition whole :: "(portfolio \<Rightarrow> nat) \<Rightarrow> portfolio \<Rightarrow> disk" where
  "whole len p = \<lparr>present = True, parsed = Some p, bytes = len p\<rparr>"

definition open_truncate :: "disk \<Rightarrow> disk" where
  "open_truncate d = \<lparr>present = True, parsed = None, bytes = 0\<rparr>"

definition write_data :: "(portfolio \<Rightarrow> nat) \<Rightarrow> portfolio \<Rightarrow> disk \<Rightarrow> disk" where
  "write_data len p d =
     \<lparr>present = True, parsed = (if bytes d \<le> len p then Some p else None),
      bytes = max (len p) (bytes d)\<rparr>"

text \<open>
  The body of a call between its read and its write, for each operation.
  \<^verbatim>\<open>resetPortfolio\<close> reads nothing.
\<close>

fun transaction ::
  "clock \<Rightarrow> operation \<Rightarrow> portfolio \<Rightarrow> trade_error + (outcome \<times> portfolio)" where
  "transaction ck (OpenStock symb qty price) pf =
     map_sum (\<lambda>e. e) (map_prod Opened (\<lambda>p. p)) (buyStock_on ck symb qty price pf)"
| "transaction ck (CloseStock symb currentPrice) pf =
     map_sum (\<lambda>e. e) (map_prod Closed (\<lambda>p. p)) (sellStock_on ck symb currentPrice pf)"
| "transaction ck (OpenOption symb type strk expir premium cons) pf =
     map_sum (\<lambda>e. e) (map_prod Opened (\<lambda>p. p))
       (buyOption_on ck symb type strk expir premium cons pf)"
| "transaction ck (CloseOption positionId exitPremium) pf =
     map_sum (\<lambda>e. e) (map_prod Closed (\<lambda>p. p)) (closeOption_on ck positionId exitPremium pf)"
| "transaction ck Reset pf =
     (let newPortfolio = initializePortfolio (initISO ck) in Inr (Fresh newPortfolio, newPortfolio))"

text \<open>
  The read of a call: \<^verbatim>\<open>loadPortfolio\<close> on what the file holds. When the text does not
  parse, \<^verbatim>\<open>loadPortfolio\<close> writes a new portfolio before it returns; that write is taken in
  one piece.
\<close>

definition read_step ::
  "(portfolio \<Rightarrow> nat) \<Rightarrow> clock \<Rightarrow> operation \<Rightarrow> disk \<Rightarrow> (trade_error + portfolio) \<times> disk" where
  "read_step len ck op d =
     (if op = Reset then (Inr (initializePortfolio (initISO ck)), d)
      else
        (case loadPortfolio (initISO ck) (as_file d) of
           (r, f1) \<Rightarrow>
             (r, case readPortfolio (as_file d) of
                   Inr p \<Rightarrow> d
                 | Inl error \<Rightarrow> whole len (initializePortfolio (initISO ck)))))"

text \<open>
  The events of a call: \<open>Begin\<close>, its read; \<open>Commit\<close>, its body on the object it has
  loaded, up to the call of \<^verbatim>\<open>fs.writeFile\<close>, or to the \<^verbatim>\<open>throw\<close> that answers it; \<open>Open\<close>,
  the opening of the file by its \<^verbatim>\<open>fs.writeFile\<close>; \<open>Write\<close>, the writing of its text, after
  which the call is answered.
\<close>

datatype event = Begin nat | Commit nat | Open nat | Write nat

record run_state =
  stored :: disk
  snapshots :: "nat \<rightharpoonup> portfolio"
  pending :: "nat \<rightharpoonup> outcome \<times> portfolio \<times> bool"
  results :: "nat \<rightharpoonup> trade_error + outcome"

definition begin_call ::
  "(portfolio \<Rightarrow> nat) \<Rightarrow> nat \<Rightarrow> clock \<times> operation \<Rightarrow> run_state \<Rightarrow> run_state" where
  "begin_call len i call s =
     (case read_step len (fst call) (snd call) (stored s) of
        (Inl e, d1) \<Rightarrow> s\<lparr>stored := d1, results := (results s)(i \<mapsto> Inl e)\<rparr>
      | (Inr pf, d1) \<Rightarrow> s\<lparr>stored := d1, snapshots := (snapshots s)(i \<mapsto> pf)\<rparr>)"

definition commit_call :: "nat \<Rightarrow> clock \<times> operation \<Rightarrow> run_state \<Rightarrow> run_state" where
  "commit_call i call s =
     (case snapshots s i of
        None \<Rightarrow> s
      | Some pf \<Rightarrow>
          (case transaction (fst call) (snd call) pf of
             Inl e \<Rightarrow> s\<lparr>results := (results s)(i \<mapsto> Inl e)\<rparr>
           | Inr (r, pf') \<Rightarrow> s\<lparr>pending := (pending s)(i \<mapsto> (r, pf', False))\<rparr>))"

definition open_call :: "nat \<Rightarrow> run_state \<Rightarrow> run_state" where
  "open_call i s =
     (case pending s i of
        Some (r, pf', False) \<Rightarrow>
          s\<lparr>stored := open_truncate (stored s), pending := (pending s)(i \<mapsto> (r, pf', True))\<rparr>
      | _ \<Rightarrow> s)"

definition write_call :: "(portfolio \<Rightarrow> nat) \<Rightarrow> nat \<Rightarrow> run_state \<Rightarrow> run_state" where
  "write_call len i s =
     (case pending s i of
        Some (r, pf', True) \<Rightarrow>
          s\<lparr>stored := write_data len pf' (stored s), pending := (pending s)(i := None),
            results := (results s)(i \<mapsto> Inr r)\<rparr>
      | _ \<Rightarrow> s)"

fun run_events ::
  "(portfolio \<Rightarrow> nat) \<Rightarrow> (clock \<times> operation) list \<Rightarrow> event list \<Rightarrow> run_state \<Rightarrow> run_state" where
  "run_events len calls [] s = s"
| "run_events len calls (Begin i # evs) s =
     run_events len calls evs (if i < length calls then begin_call len i (calls ! i) s else s)"
| "run_events len calls (Commit i # evs) s =
     run_events len calls evs (if i < length calls then commit_call i (calls ! i) s else s)"
| "run_events len calls (Open i # evs) s =
     run_events len calls evs (if i < length calls then open_call i s else s)"
| "run_events len calls (Write i # evs) s =
     run_events len calls evs (if i < length calls then write_call len i s else s)"

definition start :: "disk \<Rightarrow> run_state" where
  "start d = \<lparr>stored = d, snapshots = Map.empty, pending = Map.empty, results = Map.empty\<rparr>"

text \<open>One call from its read to its answer, with nothing in between.\<close>

definition whole_call ::
  "(portfolio \<Rightarrow> nat) \<Rightarrow> nat \<Rightarrow> clock \<times> operation \<Rightarrow> run_state \<Rightarrow> run_state" where
  "whole_call len i call s =
     write_call len i (open_call i (commit_call i call (begin_call len i call s)))"

text \<open>What a run of two calls leaves: the answer to each and the file.\<close>

definition observed ::
  "run_state \<Rightarrow> (trade_error + outcome) option \<times> (trade_error + outcome) option \<times> portfolio_file" where
  "observed s = (results s 0, results s 1, as_file (stored s))"

text \<open>
  Four schedules of two calls: the first call, then the second; the second, then the
  first; both reads before either call goes on, the two writes one after the other; and
  both reads first with the two writes overlapping as well.
\<close>

definition one_after_other :: "event list" where
  "one_after_other =
     [Begin 0, Commit 0, Open 0, Write 0, Begin 1, Commit 1, Open 1, Write 1]"

definition other_first :: "event list" where
  "other_first =
     [Begin 1, Commit 1, Open 1, Write 1, Begin 0, Commit 0, Open 0, Write 0]"

definition overlapped :: "event list" where
  "overlapped =
     [Begin 0, Begin 1, Commit 0, Open 0, Write 0, Commit 1, Open 1, Write 1]"

definition writes_overlapped :: "event list" where
  "writes_overlapped =
     [Begin 0, Begin 1, Commit 0, Commit 1, Open 0, Open 1, Write 0, Write 1]"

section \<open>Example data\<close>

text \<open>
  Two clocks one millisecond apart, a new portfolio, and the positions of the
  specification's scenarios A (100 AAPL at 150) and B (10 TSLA calls at 5).
\<close>

abbreviation at_time :: "nat \<Rightarrow> string \<Rightarrow> clock" where
  "at_time ms stamp \<equiv> \<lparr>initISO = stamp, nowMs = ms, nowISO = stamp\<rparr>"

abbreviation new_year :: clock where
  "new_year \<equiv> at_time 1767225600000 ''2026-01-01T00:00:00.000Z''"

abbreviation millisecond_later :: clock where
  "millisecond_later \<equiv> at_time 1767225600001 ''2026-01-01T00:00:00.001Z''"

abbreviation untouched :: portfolio where
  "untouched \<equiv> initializePortfolio ''2025-12-31T00:00:00.000Z''"

abbreviation aapl_lot :: position where
  "aapl_lot \<equiv> Stock ''1767225600000'' ''AAPL'' 100 150 ''2026-01-01T00:00:00.000Z'' 15000"

abbreviation tsla_calls :: position where
  "tsla_calls \<equiv> Option ''1767225600000'' ''call'' ''TSLA'' 250 ''2026-01-01'' 10 5
     ''2026-01-01T00:00:00.000Z'' 5000"

abbreviation tsla_lot :: position where
  "tsla_lot \<equiv> Stock ''1767225600000'' ''TSLA'' 100 350 ''2026-01-01T00:00:00.000Z'' 35000"

abbreviation holding :: "rat \<Rightarrow> position list \<Rightarrow> portfolio" where
  "holding cash ps \<equiv> \<lparr>balance = cash, openPositions = ps, closedTrades = [], totalPL = 0,
     createdAt = ''2025-12-31T00:00:00.000Z''\<rparr>"

text \<open>Two purchases that the balance of a new portfolio covers one at a time, not together.\<close>

abbreviation two_buys :: "(clock \<times> operation) list" where
  "two_buys \<equiv> [(new_year, OpenStock ''AAPL'' 4000 150),
                (millisecond_later, OpenStock ''TSLA'' 2000 350)]"

text \<open>
  A stand-in for the length of the JSON text of a portfolio in the examples: 110 characters,
  230 more for each open position and 380 more for each closed trade.
\<close>

definition sample_length :: "portfolio \<Rightarrow> nat" where
  "sample_length p = 110 + 230 * length (openPositions p) + 380 * length (closedTrades p)"

section \<open>Basic facts\<close>

lemma toString_new_year: "toString 1767225600000 = ''1767225600000''"
  by (simp add: toString.simps digit_char_def)

lemma toString_millisecond_later: "toString 1767225600001 = ''1767225600001''"
  by (simp add: toString.simps digit_char_def)

lemmas run_defs = buyStock_def buyOption_def sellStock_def closeOption_def on_file_def
  loadPortfolio_def readPortfolio_def savePortfolio_def initializePortfolio_def
  buyStock_on_def buyOption_on_def sellStock_on_def closeOption_on_def lift_result_def
  resetPortfolio_def js_div_def js_times_def splice1_def Let_def
  toString_new_year toString_millisecond_later

lemma loadPortfolio_Holds: "loadPortfolio stamp (Holds pf) = (Inr pf, Holds pf)"
  by (simp add: loadPortfolio_def readPortfolio_def)

lemma on_file_Holds:
  "on_file ck body (Holds pf) =
     (case body pf of Inl e \<Rightarrow> (Inl e, Holds pf) | Inr (r, pf') \<Rightarrow> (Inr r, Holds pf'))"
  by (simp add: on_file_def loadPortfolio_def readPortfolio_def savePortfolio_def
      split: sum.splits prod.splits)

lemma fst_on_file_Holds:
  "fst (on_file ck body (Holds pf)) = map_sum (\<lambda>e. e) fst (body pf)"
  by (simp add: on_file_Holds split: sum.splits prod.splits)

lemma on_file_failure:
  "fst (on_file ck body f) = Inl e \<Longrightarrow> snd (on_file ck body f) = snd (loadPortfolio (initISO ck) f)"
  by (auto simp: on_file_def split: sum.splits prod.splits)

lemma findIndex_None: "findIndex test xs = None \<longleftrightarrow> (\<forall>x\<in>set xs. \<not> test x)"
  by (induction xs) auto

lemma findIndex_Some:
  "findIndex test xs = Some i \<Longrightarrow>
     i < length xs \<and> test (xs ! i) \<and> (\<forall>x\<in>set (take i xs). \<not> test x)"
proof (induction xs arbitrary: i)
  case Nil
  then show ?case by simp
next
  case (Cons x xs)
  show ?case
  proof (cases "test x")
    case True
    with Cons.prems show ?thesis by simp
  next
    case False
    with Cons.prems obtain j where j: "findIndex test xs = Some j" "i = Suc j"
      by auto
    from Cons.IH [OF j(1)] False j(2) show ?thesis by simp
  qed
qed

lemma findIndex_first:
  "xs = before @ x # after \<Longrightarrow> \<forall>y\<in>set before. \<not> test y \<Longrightarrow> test x \<Longrightarrow>
     findIndex test xs = Some (length before)"
  by (induction before arbitrary: xs) auto

lemma findIndex_split:
  assumes "findIndex test xs = Some i"
  shows "xs = take i xs @ (xs ! i) # drop (Suc i) xs"
  using findIndex_Some [OF assms] by (simp add: id_take_nth_drop)

lemma first_match_split:
  assumes "\<exists>x\<in>set xs. test x"
  shows "\<exists>before x after. xs = before @ x # after \<and> (\<forall>y\<in>set before. \<not> test y) \<and> test x"
proof -
  from assms obtain i where i: "findIndex test xs = Some i"
    by (cases "findIndex test xs") (auto simp: findIndex_None)
  from findIndex_Some [OF i] findIndex_split [OF i] show ?thesis by blast
qed

lemma splice1_middle: "splice1 (length before) (before @ x # after) = before @ after"
  by (simp add: splice1_def)

lemma js_percent: "js_times (js_div a b) 100 = (if b = 0 then None else Some (a / b * 100))"
  by (simp add: js_div_def js_times_def)

lemma only_element:
  "[x] = before @ y # after \<longleftrightarrow> before = [] \<and> y = x \<and> after = []"
  by (auto simp: Cons_eq_append_conv)

section \<open>Loading the file\<close>

text \<open>
  Claim C7: loading recovers by creating a new ledger only when the record is absent, and a
  read that fails for another reason (an unreadable or corrupt record) fails the load with
  a store error. The source's comment names the absent file (\<^verbatim>\<open>If file doesn't exist,
  create new portfolio\<close>), but its \<^verbatim>\<open>catch (error)\<close> takes every error: a file whose text
  is not JSON is answered with a new portfolio of balance 1,000,000, and that portfolio is
  written over the file.
\<close>

theorem loadPortfolio_overwrites_corrupt_file:
  "fst (loadPortfolio stamp Corrupt) \<noteq> Inl StoreIO
   \<and> loadPortfolio stamp Corrupt =
     (Inr \<lparr>balance = 1000000, openPositions = [], closedTrades = [], totalPL = 0,
           createdAt = stamp\<rparr>,
      Holds \<lparr>balance = 1000000, openPositions = [], closedTrades = [], totalPL = 0,
           createdAt = stamp\<rparr>)"
  by (simp add: loadPortfolio_def readPortfolio_def savePortfolio_def initializePortfolio_def
      Let_def)

text \<open>The missing file is answered the same way.\<close>

lemma loadPortfolio_missing_initializes:
  "loadPortfolio stamp Missing =
     (Inr (initializePortfolio stamp), Holds (initializePortfolio stamp))"
  by (simp add: loadPortfolio_def readPortfolio_def savePortfolio_def Let_def)

section \<open>Opening positions: what is checked\<close>




section \<open>Opening positions: what changes\<close>

text \<open>
  Claim C10: a successful openStock or openOption changes only the balance, lowered by the
  cost, and the open positions, with the new position added at the end; the closed
  trades, the realized profit and loss, the creation date and every position that was
  open before, in its place, are as they were.
\<close>

theorem open_frame:
  "(fst (buyStock ck symb qty price (Holds pf)) = Inr r \<longrightarrow>
      (\<exists>pf'. snd (buyStock ck symb qty price (Holds pf)) = Holds pf'
         \<and> balance pf' = balance pf - qty * price
         \<and> openPositions pf' = openPositions pf @ [position r]
         \<and> closedTrades pf' = closedTrades pf \<and> totalPL pf' = totalPL pf
         \<and> createdAt pf' = createdAt pf))
   \<and> (fst (buyOption ck symb type strk expir premium cons (Holds pf)) = Inr r \<longrightarrow>
      (\<exists>pf'. snd (buyOption ck symb type strk expir premium cons (Holds pf)) = Holds pf'
         \<and> balance pf' = balance pf - premium * 100 * cons
         \<and> openPositions pf' = openPositions pf @ [position r]
         \<and> closedTrades pf' = closedTrades pf \<and> totalPL pf' = totalPL pf
         \<and> createdAt pf' = createdAt pf))"
  by (auto simp: buyStock_def buyOption_def on_file_Holds buyStock_on_def buyOption_on_def Let_def
      split: if_splits)

theorem open_frame_witness:
  "fst (buyStock new_year ''AAPL'' 100 150 (Holds (holding 1000000 [tsla_calls]))) =
     Inr \<lparr>position = aapl_lot, newBalance = 985000\<rparr>
   \<and> (\<exists>pf'. snd (buyStock new_year ''AAPL'' 100 150 (Holds (holding 1000000 [tsla_calls]))) =
          Holds pf'
        \<and> balance pf' = 985000 \<and> openPositions pf' = [tsla_calls, aapl_lot]
        \<and> closedTrades pf' = [] \<and> totalPL pf' = 0
        \<and> createdAt pf' = ''2025-12-31T00:00:00.000Z'')
   \<and> fst (buyOption new_year ''TSLA'' ''call'' 250 ''2026-01-01'' 5 10
          (Holds (holding 985000 [aapl_lot]))) =
       Inr \<lparr>position = tsla_calls, newBalance = 980000\<rparr>
   \<and> (\<exists>pf'. snd (buyOption new_year ''TSLA'' ''call'' 250 ''2026-01-01'' 5 10
          (Holds (holding 985000 [aapl_lot]))) = Holds pf'
        \<and> balance pf' = 980000 \<and> openPositions pf' = [aapl_lot, tsla_calls]
        \<and> closedTrades pf' = [] \<and> totalPL pf' = 0
        \<and> createdAt pf' = ''2025-12-31T00:00:00.000Z'')"
proof -
  have h: "fst (buyStock new_year ''AAPL'' 100 150 (Holds (holding 1000000 [tsla_calls]))) =
     Inr \<lparr>position = aapl_lot, newBalance = 985000\<rparr>"
    by (simp add: run_defs)
  have k: "fst (buyOption new_year ''TSLA'' ''call'' 250 ''2026-01-01'' 5 10
          (Holds (holding 985000 [aapl_lot]))) =
       Inr \<lparr>position = tsla_calls, newBalance = 980000\<rparr>"
    by (simp add: run_defs)
  from open_frame [where ck = new_year and symb = "''AAPL''" and qty = 100 and price = 150
      and pf = "holding 1000000 [tsla_calls]"
      and r = "\<lparr>position = aapl_lot, newBalance = 985000\<rparr>", THEN conjunct1] h
  have 1: "\<exists>pf'. snd (buyStock new_year ''AAPL'' 100 150 (Holds (holding 1000000 [tsla_calls]))) =
          Holds pf'
        \<and> balance pf' = 985000 \<and> openPositions pf' = [tsla_calls, aapl_lot]
        \<and> closedTrades pf' = [] \<and> totalPL pf' = 0
        \<and> createdAt pf' = ''2025-12-31T00:00:00.000Z''"
    by simp
  from open_frame [where ck = new_year and symb = "''TSLA''" and type = "''call''"
      and strk = 250 and expir = "''2026-01-01''" and premium = 5 and cons = 10
      and pf = "holding 985000 [aapl_lot]"
      and r = "\<lparr>position = tsla_calls, newBalance = 980000\<rparr>", THEN conjunct2] k
  have 2: "\<exists>pf'. snd (buyOption new_year ''TSLA'' ''call'' 250 ''2026-01-01'' 5 10
          (Holds (holding 985000 [aapl_lot]))) = Holds pf'
        \<and> balance pf' = 980000 \<and> openPositions pf' = [aapl_lot, tsla_calls]
        \<and> closedTrades pf' = [] \<and> totalPL pf' = 0
        \<and> createdAt pf' = ''2025-12-31T00:00:00.000Z''"
    by simp
  from h k 1 2 show ?thesis by blast
qed

section \<open>Failed calls\<close>

text \<open>
  Claim C4: when a trade operation fails (InsufficientFunds on an open, PositionNotFound
  on a close, WrongPositionType on closeOption), the persisted ledger is the same before
  and after the call. A call that throws never reaches \<^verbatim>\<open>savePortfolio\<close>: the file is as
  \<^verbatim>\<open>loadPortfolio\<close> left it, and when it held a ledger it holds the same ledger.
\<close>

theorem failure_leaves_file:
  "fst (perform ck op f) = Inl e \<longrightarrow>
     snd (perform ck op f) = snd (loadPortfolio (initISO ck) f)
     \<and> (\<forall>pf. f = Holds pf \<longrightarrow> snd (perform ck op f) = Holds pf)"
proof
  assume fails: "fst (perform ck op f) = Inl e"
  have "snd (perform ck op f) = snd (loadPortfolio (initISO ck) f)"
  proof (cases op)
    case (OpenStock symb qty price)
    with fails show ?thesis
      by (cases "fst (buyStock ck symb qty price f)")
        (simp_all add: lift_result_def buyStock_def on_file_failure)
  next
    case (CloseStock symb cp)
    with fails show ?thesis
      by (cases "fst (sellStock ck symb cp f)")
        (simp_all add: lift_result_def sellStock_def on_file_failure)
  next
    case (OpenOption symb type strk expir premium cons)
    with fails show ?thesis
      by (cases "fst (buyOption ck symb type strk expir premium cons f)")
        (simp_all add: lift_result_def buyOption_def on_file_failure)
  next
    case (CloseOption positionId ep)
    with fails show ?thesis
      by (cases "fst (closeOption ck positionId ep f)")
        (simp_all add: lift_result_def closeOption_def on_file_failure)
  next
    case Reset
    with fails show ?thesis
      by (simp add: resetPortfolio_def Let_def)
  qed
  then show "snd (perform ck op f) = snd (loadPortfolio (initISO ck) f)
     \<and> (\<forall>pf. f = Holds pf \<longrightarrow> snd (perform ck op f) = Holds pf)"
    by (auto simp: loadPortfolio_Holds)
qed

theorem failure_leaves_file_witness:
  "fst (perform new_year (OpenStock ''NVDA'' 1000 2000) (Holds (holding 1000000 [aapl_lot]))) =
     Inl InsufficientFunds
   \<and> snd (perform new_year (OpenStock ''NVDA'' 1000 2000) (Holds (holding 1000000 [aapl_lot]))) =
       Holds (holding 1000000 [aapl_lot])
   \<and> fst (perform new_year (CloseOption ''1767225600000'' 8) (Holds (holding 985000 [aapl_lot]))) =
       Inl WrongPositionType
   \<and> snd (perform new_year (CloseOption ''1767225600000'' 8) (Holds (holding 985000 [aapl_lot]))) =
       Holds (holding 985000 [aapl_lot])"
proof -
  have a: "fst (perform new_year (OpenStock ''NVDA'' 1000 2000)
      (Holds (holding 1000000 [aapl_lot]))) = Inl InsufficientFunds"
    by (simp add: run_defs)
  have b: "fst (perform new_year (CloseOption ''1767225600000'' 8)
      (Holds (holding 985000 [aapl_lot]))) = Inl WrongPositionType"
    by (simp add: run_defs)
  from a b
    failure_leaves_file [of new_year "OpenStock ''NVDA'' 1000 2000"
      "Holds (holding 1000000 [aapl_lot])" InsufficientFunds]
    failure_leaves_file [of new_year "CloseOption ''1767225600000'' 8"
      "Holds (holding 985000 [aapl_lot])" WrongPositionType]
  show ?thesis by blast
qed

section \<open>Closing a stock position\<close>

lemma sellStock_on_found:
  assumes "openPositions pf = before @ pos # after"
    and "\<forall>p\<in>set before. \<not> (is_stock p \<and> symbol p = symb)"
    and "is_stock pos" and "symbol pos = symb"
  shows "sellStock_on ck symb cp pf =
     (let pr = shares pos * cp; pl = pr - costBasis pos;
          t = \<lparr>closed = pos, exit_at = ExitPrice cp, exitDate = nowISO ck, proceeds = pr,
               profitLoss = pl,
               percentReturn = (if costBasis pos = 0 then None else Some (pl / costBasis pos * 100))\<rparr>
      in Inr (\<lparr>trade = t, closeBalance = balance pf + pr\<rparr>,
              pf\<lparr>balance := balance pf + pr, totalPL := totalPL pf + pl,
                 openPositions := before @ after, closedTrades := closedTrades pf @ [t]\<rparr>))"
proof -
  have "findIndex (\<lambda>p. is_stock p \<and> symbol p = symb) (openPositions pf) = Some (length before)"
    using assms by (intro findIndex_first) auto
  then show ?thesis
    using assms(1) by (simp add: sellStock_on_def Let_def js_percent splice1_middle)
qed

text \<open>
  Claim C5: closeStock(symbol, currentPrice) fails with PositionNotFound when no open stock
  position has the symbol. Otherwise the first stock position with the symbol, in
  insertion order, is removed, and the others stay as they are and in their order; one
  closed trade is appended with proceeds = shares * currentPrice, profitLoss = proceeds -
  costBasis and percentReturn = profitLoss / costBasis * 100 (not a finite number when the
  cost basis is zero); the balance grows by the proceeds and the realized profit and loss
  by profitLoss.
\<close>

theorem sellStock_postcondition:
  "((\<forall>p\<in>set (openPositions pf). \<not> (is_stock p \<and> symbol p = symb)) \<longrightarrow>
      sellStock ck symb cp (Holds pf) = (Inl PositionNotFound, Holds pf))
   \<and> ((\<exists>p\<in>set (openPositions pf). is_stock p \<and> symbol p = symb) \<longrightarrow>
      (\<exists>before pos after.
         openPositions pf = before @ pos # after
         \<and> (\<forall>p\<in>set before. \<not> (is_stock p \<and> symbol p = symb))
         \<and> is_stock pos \<and> symbol pos = symb
         \<and> (let pr = shares pos * cp; pl = pr - costBasis pos;
                 t = \<lparr>closed = pos, exit_at = ExitPrice cp, exitDate = nowISO ck,
                      proceeds = pr, profitLoss = pl,
                      percentReturn =
                        (if costBasis pos = 0 then None else Some (pl / costBasis pos * 100))\<rparr>
             in sellStock ck symb cp (Holds pf) =
                  (Inr \<lparr>trade = t, closeBalance = balance pf + pr\<rparr>,
                   Holds (pf\<lparr>balance := balance pf + pr, totalPL := totalPL pf + pl,
                      openPositions := before @ after,
                      closedTrades := closedTrades pf @ [t]\<rparr>)))))"
proof (intro conjI impI)
  assume "\<forall>p\<in>set (openPositions pf). \<not> (is_stock p \<and> symbol p = symb)"
  then have "findIndex (\<lambda>p. is_stock p \<and> symbol p = symb) (openPositions pf) = None"
    by (simp add: findIndex_None)
  then show "sellStock ck symb cp (Holds pf) = (Inl PositionNotFound, Holds pf)"
    by (simp add: sellStock_def on_file_Holds sellStock_on_def)
next
  assume "\<exists>p\<in>set (openPositions pf). is_stock p \<and> symbol p = symb"
  from first_match_split [of "openPositions pf" "\<lambda>p. is_stock p \<and> symbol p = symb", OF this]
  obtain before pos after where s: "openPositions pf = before @ pos # after"
    "\<forall>p\<in>set before. \<not> (is_stock p \<and> symbol p = symb)" "is_stock pos" "symbol pos = symb"
    by blast
  from sellStock_on_found [OF s, of ck cp]
  have "let pr = shares pos * cp; pl = pr - costBasis pos;
                 t = \<lparr>closed = pos, exit_at = ExitPrice cp, exitDate = nowISO ck,
                      proceeds = pr, profitLoss = pl,
                      percentReturn =
                        (if costBasis pos = 0 then None else Some (pl / costBasis pos * 100))\<rparr>
             in sellStock ck symb cp (Holds pf) =
                  (Inr \<lparr>trade = t, closeBalance = balance pf + pr\<rparr>,
                   Holds (pf\<lparr>balance := balance pf + pr, totalPL := totalPL pf + pl,
                      openPositions := before @ after,
                      closedTrades := closedTrades pf @ [t]\<rparr>))"
    by (simp add: sellStock_def on_file_Holds Let_def)
  with s show "\<exists>before pos after.
         openPositions pf = before @ pos # after
         \<and> (\<forall>p\<in>set before. \<not> (is_stock p \<and> symbol p = symb))
         \<and> is_stock pos \<and> symbol pos = symb
         \<and> (let pr = shares pos * cp; pl = pr - costBasis pos;
                 t = \<lparr>closed = pos, exit_at = ExitPrice cp, exitDate = nowISO ck,
                      proceeds = pr, profitLoss = pl,
                      percentReturn =
                        (if costBasis pos = 0 then None else Some (pl / costBasis pos * 100))\<rparr>
             in sellStock ck symb cp (Holds pf) =
                  (Inr \<lparr>trade = t, closeBalance = balance pf + pr\<rparr>,
                   Holds (pf\<lparr>balance := balance pf + pr, totalPL := totalPL pf + pl,
                      openPositions := before @ after,
                      closedTrades := closedTrades pf @ [t]\<rparr>)))"
    by blast
qed

text \<open>
  Scenarios D and A of the specification: no ZZZZ position is open; 100 AAPL bought at 150
  and closed at 160 give proceeds 16,000, a profit of 1,000, a return of 20/3 percent
  and a balance of 1,001,000.
\<close>

theorem sellStock_postcondition_witness:
  "sellStock millisecond_later ''ZZZZ'' 100 (Holds (holding 985000 [aapl_lot])) =
     (Inl PositionNotFound, Holds (holding 985000 [aapl_lot]))
   \<and> sellStock millisecond_later ''AAPL'' 160 (Holds (holding 985000 [aapl_lot])) =
     (Inr \<lparr>trade = \<lparr>closed = aapl_lot, exit_at = ExitPrice 160,
                     exitDate = ''2026-01-01T00:00:00.001Z'', proceeds = 16000,
                     profitLoss = 1000, percentReturn = Some (20 / 3)\<rparr>,
           closeBalance = 1001000\<rparr>,
      Holds \<lparr>balance = 1001000, openPositions = [],
         closedTrades = [\<lparr>closed = aapl_lot, exit_at = ExitPrice 160,
                     exitDate = ''2026-01-01T00:00:00.001Z'', proceeds = 16000,
                     profitLoss = 1000, percentReturn = Some (20 / 3)\<rparr>],
         totalPL = 1000, createdAt = ''2025-12-31T00:00:00.000Z''\<rparr>)"
proof -
  have a: "\<forall>p\<in>set (openPositions (holding 985000 [aapl_lot])).
      \<not> (is_stock p \<and> symbol p = ''ZZZZ'')"
    by simp
  have b: "\<exists>p\<in>set (openPositions (holding 985000 [aapl_lot])).
      is_stock p \<and> symbol p = ''AAPL''"
    by simp
  from a sellStock_postcondition [where pf = "holding 985000 [aapl_lot]" and symb = "''ZZZZ''"
      and ck = millisecond_later and cp = 100]
  have 1: "sellStock millisecond_later ''ZZZZ'' 100 (Holds (holding 985000 [aapl_lot])) =
     (Inl PositionNotFound, Holds (holding 985000 [aapl_lot]))"
    by blast
  from b sellStock_postcondition [where pf = "holding 985000 [aapl_lot]" and symb = "''AAPL''"
      and ck = millisecond_later and cp = 160]
  obtain before pos after where
    s: "openPositions (holding 985000 [aapl_lot]) = before @ pos # after" and
    r: "let pr = shares pos * 160; pl = pr - costBasis pos;
            t = \<lparr>closed = pos, exit_at = ExitPrice 160, exitDate = nowISO millisecond_later,
                 proceeds = pr, profitLoss = pl,
                 percentReturn =
                   (if costBasis pos = 0 then None else Some (pl / costBasis pos * 100))\<rparr>
        in sellStock millisecond_later ''AAPL'' 160 (Holds (holding 985000 [aapl_lot])) =
             (Inr \<lparr>trade = t, closeBalance = balance (holding 985000 [aapl_lot]) + pr\<rparr>,
              Holds ((holding 985000 [aapl_lot])\<lparr>balance := balance (holding 985000 [aapl_lot]) + pr,
                 totalPL := totalPL (holding 985000 [aapl_lot]) + pl,
                 openPositions := before @ after,
                 closedTrades := closedTrades (holding 985000 [aapl_lot]) @ [t]\<rparr>))"
    by blast
  from s have "before = [] \<and> pos = aapl_lot \<and> after = []"
    by (simp add: only_element)
  with r have 2: "sellStock millisecond_later ''AAPL'' 160 (Holds (holding 985000 [aapl_lot])) =
     (Inr \<lparr>trade = \<lparr>closed = aapl_lot, exit_at = ExitPrice 160,
                     exitDate = ''2026-01-01T00:00:00.001Z'', proceeds = 16000,
                     profitLoss = 1000, percentReturn = Some (20 / 3)\<rparr>,
           closeBalance = 1001000\<rparr>,
      Holds \<lparr>balance = 1001000, openPositions = [],
         closedTrades = [\<lparr>closed = aapl_lot, exit_at = ExitPrice 160,
                     exitDate = ''2026-01-01T00:00:00.001Z'', proceeds = 16000,
                     profitLoss = 1000, percentReturn = Some (20 / 3)\<rparr>],
         totalPL = 1000, createdAt = ''2025-12-31T00:00:00.000Z''\<rparr>)"
    by (simp add: Let_def)
  from 1 2 show ?thesis by blast
qed

section \<open>Closing an option position\<close>

lemma closeOption_on_found:
  assumes "openPositions pf = before @ pos # after"
    and "\<forall>p\<in>set before. id_of p \<noteq> positionId"
    and "id_of pos = positionId"
  shows "closeOption_on ck positionId ep pf =
     (if \<not> is_option pos then Inl WrongPositionType
      else
        let pr = ep * 100 * contracts pos; pl = pr - costBasis pos;
          t = \<lparr>closed = pos, exit_at = ExitPremium ep, exitDate = nowISO ck, proceeds = pr,
               profitLoss = pl,
               percentReturn = (if costBasis pos = 0 then None else Some (pl / costBasis pos * 100))\<rparr>
        in Inr (\<lparr>trade = t, closeBalance = balance pf + pr\<rparr>,
              pf\<lparr>balance := balance pf + pr, totalPL := totalPL pf + pl,
                 openPositions := before @ after, closedTrades := closedTrades pf @ [t]\<rparr>))"
proof -
  have "findIndex (\<lambda>p. id_of p = positionId) (openPositions pf) = Some (length before)"
    using assms by (intro findIndex_first) auto
  then show ?thesis
    using assms(1) by (simp add: closeOption_on_def Let_def js_percent splice1_middle)
qed

lemma closeOption_on_absent:
  "(closeOption_on ck positionId ep pf = Inl PositionNotFound)
     \<longleftrightarrow> (\<forall>p\<in>set (openPositions pf). id_of p \<noteq> positionId)"
proof
  assume l: "closeOption_on ck positionId ep pf = Inl PositionNotFound"
  show "\<forall>p\<in>set (openPositions pf). id_of p \<noteq> positionId"
  proof (cases "findIndex (\<lambda>p. id_of p = positionId) (openPositions pf)")
    case None
    then show ?thesis by (simp add: findIndex_None)
  next
    case (Some i)
    with l show ?thesis
      by (simp add: closeOption_on_def Let_def split: if_splits)
  qed
next
  assume "\<forall>p\<in>set (openPositions pf). id_of p \<noteq> positionId"
  then have "findIndex (\<lambda>p. id_of p = positionId) (openPositions pf) = None"
    by (simp add: findIndex_None)
  then show "closeOption_on ck positionId ep pf = Inl PositionNotFound"
    by (simp add: closeOption_on_def)
qed

text \<open>
  Claim C6: closeOption(positionId, exitPremium) fails with PositionNotFound exactly when
  no open position has the id; it fails with WrongPositionType exactly when the position
  with the id (the first one in the list that has it) is a stock; otherwise it succeeds
  with proceeds = exitPremium * 100 * contracts, removes that one position, appends one
  closed trade with profitLoss = proceeds - costBasis and percentReturn = profitLoss /
  costBasis * 100 (not a finite number when the cost basis is zero), and adds the proceeds
  to the balance and profitLoss to the realized profit and loss.
\<close>

theorem closeOption_semantics:
  "(fst (closeOption ck positionId ep (Holds pf)) = Inl PositionNotFound
      \<longleftrightarrow> (\<forall>p\<in>set (openPositions pf). id_of p \<noteq> positionId))
   \<and> (fst (closeOption ck positionId ep (Holds pf)) = Inl WrongPositionType
      \<longleftrightarrow> (\<exists>before pos after. openPositions pf = before @ pos # after
            \<and> (\<forall>p\<in>set before. id_of p \<noteq> positionId) \<and> id_of pos = positionId
            \<and> is_stock pos))
   \<and> (\<forall>before pos after. openPositions pf = before @ pos # after
            \<and> (\<forall>p\<in>set before. id_of p \<noteq> positionId) \<and> id_of pos = positionId
            \<and> is_option pos \<longrightarrow>
         (let pr = ep * 100 * contracts pos; pl = pr - costBasis pos;
              t = \<lparr>closed = pos, exit_at = ExitPremium ep, exitDate = nowISO ck,
                   proceeds = pr, profitLoss = pl,
                   percentReturn =
                     (if costBasis pos = 0 then None else Some (pl / costBasis pos * 100))\<rparr>
          in closeOption ck positionId ep (Holds pf) =
               (Inr \<lparr>trade = t, closeBalance = balance pf + pr\<rparr>,
                Holds (pf\<lparr>balance := balance pf + pr, totalPL := totalPL pf + pl,
                   openPositions := before @ after,
                   closedTrades := closedTrades pf @ [t]\<rparr>))))"
proof (intro conjI allI impI)
  show "fst (closeOption ck positionId ep (Holds pf)) = Inl PositionNotFound
      \<longleftrightarrow> (\<forall>p\<in>set (openPositions pf). id_of p \<noteq> positionId)"
    using closeOption_on_absent [of ck positionId ep pf]
    by (cases "closeOption_on ck positionId ep pf")
      (simp_all add: closeOption_def fst_on_file_Holds)
next
  show "fst (closeOption ck positionId ep (Holds pf)) = Inl WrongPositionType
      \<longleftrightarrow> (\<exists>before pos after. openPositions pf = before @ pos # after
            \<and> (\<forall>p\<in>set before. id_of p \<noteq> positionId) \<and> id_of pos = positionId
            \<and> is_stock pos)" (is "?l \<longleftrightarrow> ?r")
  proof
    assume l: ?l
    then have w: "closeOption_on ck positionId ep pf = Inl WrongPositionType"
      by (cases "closeOption_on ck positionId ep pf")
        (simp_all add: closeOption_def fst_on_file_Holds)
    then have "\<not> (\<forall>p\<in>set (openPositions pf). id_of p \<noteq> positionId)"
      using closeOption_on_absent [of ck positionId ep pf] by simp
    then have "\<exists>p\<in>set (openPositions pf). id_of p = positionId" by blast
    from first_match_split [of "openPositions pf" "\<lambda>p. id_of p = positionId", OF this]
    obtain before pos after where s: "openPositions pf = before @ pos # after"
      "\<forall>p\<in>set before. id_of p \<noteq> positionId" "id_of pos = positionId"
      by blast
    from closeOption_on_found [OF s, of ck ep] w have "\<not> is_option pos"
      by (simp add: Let_def split: if_splits)
    then have "is_stock pos" by (cases pos) simp_all
    with s show ?r by blast
  next
    assume ?r
    then obtain before pos after where s: "openPositions pf = before @ pos # after"
      "\<forall>p\<in>set before. id_of p \<noteq> positionId" "id_of pos = positionId" and st: "is_stock pos"
      by blast
    from st have "\<not> is_option pos" by (cases pos) simp_all
    with closeOption_on_found [OF s, of ck ep]
    show ?l by (simp add: closeOption_def fst_on_file_Holds)
  qed
next
  fix before pos after
  assume a: "openPositions pf = before @ pos # after
            \<and> (\<forall>p\<in>set before. id_of p \<noteq> positionId) \<and> id_of pos = positionId
            \<and> is_option pos"
  then have s: "openPositions pf = before @ pos # after"
      "\<forall>p\<in>set before. id_of p \<noteq> positionId" "id_of pos = positionId" and op: "is_option pos"
    by simp_all
  from closeOption_on_found [OF s, of ck ep] op
  show "let pr = ep * 100 * contracts pos; pl = pr - costBasis pos;
              t = \<lparr>closed = pos, exit_at = ExitPremium ep, exitDate = nowISO ck,
                   proceeds = pr, profitLoss = pl,
                   percentReturn =
                     (if costBasis pos = 0 then None else Some (pl / costBasis pos * 100))\<rparr>
          in closeOption ck positionId ep (Holds pf) =
               (Inr \<lparr>trade = t, closeBalance = balance pf + pr\<rparr>,
                Holds (pf\<lparr>balance := balance pf + pr, totalPL := totalPL pf + pl,
                   openPositions := before @ after,
                   closedTrades := closedTrades pf @ [t]\<rparr>))"
    by (simp add: closeOption_def on_file_Holds Let_def)
qed

text \<open>
  Scenario B of the specification: 10 TSLA calls bought at 5 and closed at 8 give proceeds
  8,000, a profit of 3,000 and a return of 60 percent. An id that no position has is not
  found, and the id of a stock position is of the wrong type.
\<close>

theorem closeOption_semantics_witness:
  "fst (closeOption millisecond_later ''1767225600001'' 8 (Holds (holding 995000 [tsla_calls]))) =
     Inl PositionNotFound
   \<and> fst (closeOption millisecond_later ''1767225600000'' 8 (Holds (holding 985000 [aapl_lot]))) =
     Inl WrongPositionType
   \<and> closeOption millisecond_later ''1767225600000'' 8 (Holds (holding 995000 [tsla_calls])) =
     (Inr \<lparr>trade = \<lparr>closed = tsla_calls, exit_at = ExitPremium 8,
                     exitDate = ''2026-01-01T00:00:00.001Z'', proceeds = 8000,
                     profitLoss = 3000, percentReturn = Some 60\<rparr>,
           closeBalance = 1003000\<rparr>,
      Holds \<lparr>balance = 1003000, openPositions = [],
         closedTrades = [\<lparr>closed = tsla_calls, exit_at = ExitPremium 8,
                     exitDate = ''2026-01-01T00:00:00.001Z'', proceeds = 8000,
                     profitLoss = 3000, percentReturn = Some 60\<rparr>],
         totalPL = 3000, createdAt = ''2025-12-31T00:00:00.000Z''\<rparr>)"
proof -
  have a: "\<forall>p\<in>set (openPositions (holding 995000 [tsla_calls])). id_of p \<noteq> ''1767225600001''"
    by simp
  from a closeOption_semantics [where ck = millisecond_later and positionId = "''1767225600001''"
      and ep = 8 and pf = "holding 995000 [tsla_calls]"]
  have 1: "fst (closeOption millisecond_later ''1767225600001'' 8
      (Holds (holding 995000 [tsla_calls]))) = Inl PositionNotFound"
    by blast
  have b: "\<exists>before pos after. openPositions (holding 985000 [aapl_lot]) = before @ pos # after
      \<and> (\<forall>p\<in>set before. id_of p \<noteq> ''1767225600000'') \<and> id_of pos = ''1767225600000''
      \<and> is_stock pos"
    by (rule exI [of _ "[]"], rule exI [of _ aapl_lot], rule exI [of _ "[]"]) simp
  from b closeOption_semantics [where ck = millisecond_later and positionId = "''1767225600000''"
      and ep = 8 and pf = "holding 985000 [aapl_lot]"]
  have 2: "fst (closeOption millisecond_later ''1767225600000'' 8
      (Holds (holding 985000 [aapl_lot]))) = Inl WrongPositionType"
    by blast
  have c: "openPositions (holding 995000 [tsla_calls]) = [] @ tsla_calls # []
      \<and> (\<forall>p\<in>set []. id_of p \<noteq> ''1767225600000'') \<and> id_of tsla_calls = ''1767225600000''
      \<and> is_option tsla_calls"
    by simp
  from closeOption_semantics [where ck = millisecond_later and positionId = "''1767225600000''"
      and ep = 8 and pf = "holding 995000 [tsla_calls]", THEN conjunct2, THEN conjunct2,
      rule_format, OF c]
  have 3: "closeOption millisecond_later ''1767225600000'' 8 (Holds (holding 995000 [tsla_calls])) =
     (Inr \<lparr>trade = \<lparr>closed = tsla_calls, exit_at = ExitPremium 8,
                     exitDate = ''2026-01-01T00:00:00.001Z'', proceeds = 8000,
                     profitLoss = 3000, percentReturn = Some 60\<rparr>,
           closeBalance = 1003000\<rparr>,
      Holds \<lparr>balance = 1003000, openPositions = [],
         closedTrades = [\<lparr>closed = tsla_calls, exit_at = ExitPremium 8,
                     exitDate = ''2026-01-01T00:00:00.001Z'', proceeds = 8000,
                     profitLoss = 3000, percentReturn = Some 60\<rparr>],
         totalPL = 3000, createdAt = ''2025-12-31T00:00:00.000Z''\<rparr>)"
    by (simp add: Let_def)
  from 1 2 3 show ?thesis by blast
qed

section \<open>Valuation: a lookup that rejects\<close>

lemma foldl_plus_sum_list:
  "foldl (\<lambda>sum x. sum + g x) a xs = (a::rat) + sum_list (map g xs)"
  by (induction xs arbitrary: a) simp_all


text \<open>
  When the lookup rejects with anything else, an \<^verbatim>\<open>Error\<close> for one, the valuation does what
  the claim says.
\<close>

lemma value_position_Reason:
  "getCurrentPrice (symbol p) \<noteq> Inl Nullish \<Longrightarrow> \<exists>vp. value_position getCurrentPrice p = Inr vp
     \<and> held vp = p
     \<and> (getCurrentPrice (symbol p) = Inl Reason \<or> is_option p \<longrightarrow>
          currentValue vp = costBasis p \<and> unrealizedPL vp = 0 \<and> unrealizedPercent vp = Some 0)"
  by (cases p; cases "getCurrentPrice (symbol p)")
    (auto simp: value_position_def Let_def split: rejection.splits)

lemma promise_all_Inr:
  "\<forall>x\<in>set xs. \<exists>v. f x = Inr v \<and> P x v \<Longrightarrow>
     \<exists>vs. promise_all (map f xs) = Inr vs \<and> list_all2 P xs vs"
proof (induction xs)
  case Nil
  then show ?case by simp
next
  case (Cons x xs)
  then obtain v vs where "f x = Inr v" "P x v" "promise_all (map f xs) = Inr vs"
    "list_all2 P xs vs"
    by auto
  then show ?case by simp
qed

lemma getPortfolio_with_fallback:
  assumes "\<forall>p\<in>set (openPositions pf). getCurrentPrice (symbol p) \<noteq> Inl Nullish"
  shows "\<exists>v. getPortfolio stamp getCurrentPrice (Holds pf) = (Inr v, Holds pf)
        \<and> map held (view_openPositions v) = openPositions pf
        \<and> (\<forall>vp\<in>set (view_openPositions v).
             getCurrentPrice (symbol (held vp)) = Inl Reason \<or> is_option (held vp) \<longrightarrow>
               currentValue vp = costBasis (held vp) \<and> unrealizedPL vp = 0
               \<and> unrealizedPercent vp = Some 0)
        \<and> totalPortfolioValue v = balance pf + sum_list (map currentValue (view_openPositions v))
        \<and> totalReturn v = totalPortfolioValue v - 1000000"
proof -
  let ?P = "\<lambda>p vp. held vp = p
     \<and> (getCurrentPrice (symbol p) = Inl Reason \<or> is_option p \<longrightarrow>
          currentValue vp = costBasis p \<and> unrealizedPL vp = 0 \<and> unrealizedPercent vp = Some 0)"
  from assms have "\<forall>p\<in>set (openPositions pf).
      \<exists>vp. value_position getCurrentPrice p = Inr vp \<and> ?P p vp"
    using value_position_Reason by blast
  from promise_all_Inr [of "openPositions pf" "value_position getCurrentPrice" ?P, OF this]
  obtain vs where vs: "promise_all (map (value_position getCurrentPrice) (openPositions pf)) = Inr vs"
    and l: "list_all2 ?P (openPositions pf) vs"
    by blast
  from l have h: "map held vs = openPositions pf"
    by (induction rule: list_all2_induct) simp_all
  from l have fb: "\<forall>vp\<in>set vs.
             getCurrentPrice (symbol (held vp)) = Inl Reason \<or> is_option (held vp) \<longrightarrow>
               currentValue vp = costBasis (held vp) \<and> unrealizedPL vp = 0
               \<and> unrealizedPercent vp = Some 0"
    by (induction rule: list_all2_induct) simp_all
  define tpv where "tpv = balance pf + sum_list (map currentValue vs)"
  define v where "v = \<lparr>view_balance = balance pf, view_openPositions = vs,
     view_closedTrades = closedTrades pf, view_totalPL = totalPL pf,
     totalUnrealizedPL = sum_list (map unrealizedPL vs), totalPortfolioValue = tpv,
     totalReturn = tpv - 1000000, totalReturnPercent = ((tpv - 1000000) / 1000000) * 100\<rparr>"
  have g: "getPortfolio stamp getCurrentPrice (Holds pf) = (Inr v, Holds pf)"
    by (simp add: getPortfolio_def loadPortfolio_Holds vs Let_def foldl_plus_sum_list
        v_def tpv_def)
  have "view_openPositions v = vs" "totalPortfolioValue v = tpv" "totalReturn v = tpv - 1000000"
    by (simp_all add: v_def)
  with g h fb show ?thesis
    by (intro exI [of _ v]) (simp add: tpv_def)
qed

section \<open>Solvency of runs\<close>

text \<open>
  Claim C1, as stated: after every operation of every run from the fresh state the balance
  is at least zero, whatever the numeric arguments. Selling asks nothing of the price: 100
  AAPL bought at 150 and closed at a price of -10,000 leave a balance of -15,000. Buying
  asks nothing of the quantity beyond the cost: -100 AAPL bought at 150 and closed at
  20,000 leave a balance of -985,000.
\<close>

theorem negative_arguments_break_solvency:
  "\<not> solvent (execute [(new_year, OpenStock ''AAPL'' 100 150),
                        (millisecond_later, CloseStock ''AAPL'' (-10000))] Missing)
   \<and> \<not> solvent (execute [(new_year, OpenStock ''AAPL'' (-100) 150),
                        (millisecond_later, CloseStock ''AAPL'' 20000)] Missing)"
  by (simp add: run_defs solvent_def)

lemma negative_price_trace:
  "execute [(new_year, OpenStock ''AAPL'' 100 150),
            (millisecond_later, CloseStock ''AAPL'' (-10000))] Missing
   = Holds \<lparr>balance = -15000, openPositions = [],
       closedTrades = [\<lparr>closed = aapl_lot, exit_at = ExitPrice (-10000),
                         exitDate = ''2026-01-01T00:00:00.001Z'',
                         proceeds = -1000000, profitLoss = -1015000,
                         percentReturn = Some (-20300 / 3)\<rparr>],
       totalPL = -1015000, createdAt = ''2026-01-01T00:00:00.000Z''\<rparr>"
  by (simp add: run_defs)

lemma negative_quantity_trace:
  "execute [(new_year, OpenStock ''AAPL'' (-100) 150),
            (millisecond_later, CloseStock ''AAPL'' 20000)] Missing
   = Holds \<lparr>balance = -985000, openPositions = [],
       closedTrades = [\<lparr>closed = Stock ''1767225600000'' ''AAPL'' (-100) 150
                            ''2026-01-01T00:00:00.000Z'' (-15000),
                         exit_at = ExitPrice 20000,
                         exitDate = ''2026-01-01T00:00:00.001Z'',
                         proceeds = -2000000, profitLoss = -1985000,
                         percentReturn = Some (39700 / 3)\<rparr>],
       totalPL = -1985000, createdAt = ''2026-01-01T00:00:00.000Z''\<rparr>"
  by (simp add: run_defs)

text \<open>
  The same run over JavaScript numbers, and two runs whose arguments are not negative and
  whose balance is written as \<^verbatim>\<open>null\<close>: a purchase of 0 shares at a price of \<^verbatim>\<open>Infinity\<close>
  costs \<^verbatim>\<open>NaN\<close>, which is not greater than the balance; and 0 contracts closed at a premium
  of 1e307 give proceeds of \<^verbatim>\<open>Infinity * 0\<close>.
\<close>

lemma rounds_nonneg_exact_until_overflow: "rounds_nonneg exact_until_overflow"
  by (simp add: rounds_nonneg_def exact_until_overflow_def max_double_def)

lemmas js_run_defs = js_perform_def js_loadPortfolio_def js_savePortfolio_def
  js_initializePortfolio_def json_portfolio_def json_trade_def json_num_def
  js_buyStock_on_def js_buyOption_on_def js_sellStock_on_def js_closeOption_on_def js_close_def
  js_insufficient_def js_mul_def js_add_def js_sub_def js_quot_def js_gt_def signed_inf_def
  exact_until_overflow_def max_double_def splice1_def Let_def
  toString_new_year toString_millisecond_later

lemma negative_price_trace_js:
  "js_execute exact_until_overflow
     [(new_year, JsOpenStock ''AAPL'' (Fin 100) (Fin 150)),
      (millisecond_later, JsCloseStock ''AAPL'' (Fin (-10000)))] JsMissing
   = JsHolds \<lparr>js_balance = Fin (-15000), js_openPositions = [],
       js_closedTrades =
         [\<lparr>js_closed = JsStock ''1767225600000'' ''AAPL'' (Fin 100) (Fin 150)
              ''2026-01-01T00:00:00.000Z'' (Fin 15000),
           js_exit_at = JsExitPrice (Fin (-10000)),
           js_exitDate = ''2026-01-01T00:00:00.001Z'',
           js_proceeds = Fin (-1000000), js_profitLoss = Fin (-1015000),
           js_percentReturn = Fin (-20300 / 3)\<rparr>],
       js_totalPL = Fin (-1015000), js_createdAt = ''2026-01-01T00:00:00.000Z''\<rparr>"
  by (simp add: js_run_defs)

lemma infinite_price_trace_js:
  "js_execute exact_until_overflow
     [(new_year, JsOpenStock ''AAPL'' (Fin 0) PosInf)] JsMissing
   = JsHolds \<lparr>js_balance = Null,
       js_openPositions =
         [JsStock ''1767225600000'' ''AAPL'' (Fin 0) Null ''2026-01-01T00:00:00.000Z'' Null],
       js_closedTrades = [], js_totalPL = Fin 0,
       js_createdAt = ''2026-01-01T00:00:00.000Z''\<rparr>"
  by (simp add: js_run_defs)

lemma overflow_trace_js:
  "js_execute exact_until_overflow
     [(new_year, JsOpenOption ''TSLA'' ''call'' (Fin 250) ''2026-01-01'' (Fin 5) (Fin 0)),
      (millisecond_later, JsCloseOption ''1767225600000'' (Fin (10 ^ 307)))] JsMissing
   = JsHolds \<lparr>js_balance = Null, js_openPositions = [],
       js_closedTrades =
         [\<lparr>js_closed = JsOption ''1767225600000'' ''call'' ''TSLA'' (Fin 250) ''2026-01-01''
              (Fin 0) (Fin 5) ''2026-01-01T00:00:00.000Z'' (Fin 0),
           js_exit_at = JsExitPremium (Fin (10 ^ 307)),
           js_exitDate = ''2026-01-01T00:00:00.001Z'',
           js_proceeds = Null, js_profitLoss = Null, js_percentReturn = Null\<rparr>],
       js_totalPL = Null, js_createdAt = ''2026-01-01T00:00:00.000Z''\<rparr>"
  by (simp add: js_run_defs)

text \<open>Signs of the results of the arithmetic.\<close>

lemma nn_simps [simp]:
  "nn (Fin x) \<longleftrightarrow> 0 \<le> x" "nn PosInf" "\<not> nn NegInf" "nn NaN" "nn Null"
  by (simp_all add: nn_def)

lemma kept_nonneg_simps [simp]:
  "kept_nonneg (Fin x) \<longleftrightarrow> 0 \<le> x" "\<not> kept_nonneg PosInf" "\<not> kept_nonneg NegInf"
  "\<not> kept_nonneg NaN" "kept_nonneg Null"
  by (simp_all add: kept_nonneg_def)

lemma is_nonneg_simps [simp]:
  "is_nonneg (Fin x) \<longleftrightarrow> 0 \<le> x" "is_nonneg PosInf" "\<not> is_nonneg NegInf"
  "\<not> is_nonneg NaN" "is_nonneg Null"
  by (simp_all add: is_nonneg_def)

lemma nn_to_number: "nn (to_number v) = nn v"
  by (cases v) simp_all

lemma nn_rnd: "rounds_nonneg rnd \<Longrightarrow> 0 \<le> x \<Longrightarrow> nn (rnd x)"
  by (auto simp: rounds_nonneg_def)

lemma nn_signed_inf: "0 \<le> x \<Longrightarrow> nn (signed_inf x)"
  by (simp add: signed_inf_def)

lemma nn_mul_num: "rounds_nonneg rnd \<Longrightarrow> nn a \<Longrightarrow> nn b \<Longrightarrow> nn (mul_num rnd a b)"
  by (cases a; cases b) (simp_all add: nn_rnd nn_signed_inf)

lemma nn_mul: "rounds_nonneg rnd \<Longrightarrow> nn a \<Longrightarrow> nn b \<Longrightarrow> nn (js_mul rnd a b)"
  by (simp add: js_mul_def nn_mul_num nn_to_number)

lemma nn_add_num: "rounds_nonneg rnd \<Longrightarrow> nn a \<Longrightarrow> nn b \<Longrightarrow> nn (add_num rnd a b)"
  by (cases a; cases b) (simp_all add: nn_rnd)

lemma nn_add: "rounds_nonneg rnd \<Longrightarrow> nn a \<Longrightarrow> nn b \<Longrightarrow> nn (js_add rnd a b)"
  by (simp add: js_add_def nn_add_num nn_to_number)

lemma nn_sub_num:
  "rounds_nonneg rnd \<Longrightarrow> nn a \<Longrightarrow> \<not> gt_num c a \<Longrightarrow> a \<noteq> Null \<Longrightarrow> c \<noteq> Null \<Longrightarrow>
     nn (add_num rnd a (neg_num c))"
  by (cases a; cases c) (simp_all add: nn_rnd)

lemma to_number_not_Null [simp]: "to_number v \<noteq> Null"
  by (cases v) simp_all

lemma nn_sub: "rounds_nonneg rnd \<Longrightarrow> nn a \<Longrightarrow> \<not> js_gt c a \<Longrightarrow> nn (js_sub rnd a c)"
  by (simp add: js_sub_def js_gt_def nn_sub_num nn_to_number)

lemma kept_json_num: "nn v \<Longrightarrow> kept_nonneg (json_num v)"
  by (cases v) (simp_all add: json_num_def)

lemma nn_json_num: "nn v \<Longrightarrow> nn (json_num v)"
  by (cases v) (simp_all add: json_num_def)

lemma kept_nonneg_nn: "kept_nonneg v \<Longrightarrow> nn v"
  by (cases v) simp_all

lemma is_nonneg_nn: "is_nonneg v \<Longrightarrow> nn v"
  by (cases v) simp_all

lemma js_long_json: "js_long p \<Longrightarrow> js_long (json_position p)"
  by (cases p) (simp_all add: nn_json_num)

lemma js_sound_save:
  "js_sound pf \<Longrightarrow> js_sound_file (js_savePortfolio pf f)"
  by (auto simp: js_sound_def js_sound_file_def js_savePortfolio_def json_portfolio_def
      kept_json_num nn_json_num list_all_iff js_long_json)

lemma js_sound_fresh: "js_sound (js_initializePortfolio stamp)"
  by (simp add: js_sound_def js_initializePortfolio_def)

lemma js_sound_buyStock:
  "rounds_nonneg rnd \<Longrightarrow> js_sound pf \<Longrightarrow> is_nonneg qty \<Longrightarrow>
     js_buyStock_on rnd ck symb qty price pf = Inr pf' \<Longrightarrow> js_sound pf'"
  by (auto simp: js_buyStock_on_def Let_def js_sound_def nn_sub is_nonneg_nn split: if_splits)

lemma js_sound_buyOption:
  "rounds_nonneg rnd \<Longrightarrow> js_sound pf \<Longrightarrow> is_nonneg cons \<Longrightarrow>
     js_buyOption_on rnd ck symb type strk expir premium cons pf = Inr pf' \<Longrightarrow> js_sound pf'"
  by (auto simp: js_buyOption_on_def Let_def js_sound_def nn_sub is_nonneg_nn split: if_splits)

lemma list_all_splice1: "list_all P xs \<Longrightarrow> list_all P (splice1 i xs)"
  by (auto simp: splice1_def list_all_iff dest: in_set_takeD in_set_dropD)

lemma js_sound_close:
  "rounds_nonneg rnd \<Longrightarrow> js_sound pf \<Longrightarrow> nn pr \<Longrightarrow> js_sound (js_close rnd ck i ex pr pf)"
  by (simp add: js_close_def Let_def js_sound_def nn_add list_all_splice1)

lemma js_sound_sellStock:
  assumes "rounds_nonneg rnd" "js_sound pf" "is_nonneg cp"
    "js_sellStock_on rnd ck symb cp pf = Inr pf'"
  shows "js_sound pf'"
proof -
  from assms(4) obtain i where
    i: "findIndex (\<lambda>p. js_is_stock p \<and> js_symbol p = symb) (js_openPositions pf) = Some i"
    by (cases "findIndex (\<lambda>p. js_is_stock p \<and> js_symbol p = symb) (js_openPositions pf)")
      (simp_all add: js_sellStock_on_def)
  from findIndex_Some [OF i]
  have b: "i < length (js_openPositions pf)" "js_is_stock (js_openPositions pf ! i)"
    by simp_all
  with assms(2) have "js_long (js_openPositions pf ! i)"
    by (simp add: js_sound_def list_all_length)
  with b(2) have "nn (js_shares (js_openPositions pf ! i))"
    by (cases "js_openPositions pf ! i") simp_all
  with assms(1,3) have "nn (js_mul rnd (js_shares (js_openPositions pf ! i)) cp)"
    by (simp add: nn_mul is_nonneg_nn)
  with assms i show ?thesis
    by (auto simp: js_sellStock_on_def Let_def js_sound_close)
qed

lemma js_sound_closeOption:
  assumes "rounds_nonneg rnd" "js_sound pf" "is_nonneg ep"
    "js_closeOption_on rnd ck positionId ep pf = Inr pf'"
  shows "js_sound pf'"
proof -
  from assms(4) obtain i where
    i: "findIndex (\<lambda>p. js_id p = positionId) (js_openPositions pf) = Some i"
    by (cases "findIndex (\<lambda>p. js_id p = positionId) (js_openPositions pf)")
      (simp_all add: js_closeOption_on_def)
  from assms(4) i have o: "js_is_option (js_openPositions pf ! i)"
    by (simp add: js_closeOption_on_def Let_def split: if_splits)
  from findIndex_Some [OF i] have b: "i < length (js_openPositions pf)"
    by simp
  with assms(2) have "js_long (js_openPositions pf ! i)"
    by (simp add: js_sound_def list_all_length)
  with o have "nn (js_contracts (js_openPositions pf ! i))"
    by (cases "js_openPositions pf ! i") simp_all
  with assms(1,3)
  have "nn (js_mul rnd (js_mul rnd ep (Fin 100)) (js_contracts (js_openPositions pf ! i)))"
    by (simp add: nn_mul is_nonneg_nn)
  with assms i o show ?thesis
    by (auto simp: js_closeOption_on_def Let_def js_sound_close)
qed

lemma js_sound_body:
  "rounds_nonneg rnd \<Longrightarrow> js_sound pf \<Longrightarrow> js_nonneg_args op \<Longrightarrow>
     js_body rnd ck op pf = Inr pf' \<Longrightarrow> js_sound pf'"
  by (cases op)
    (auto simp: js_sound_fresh dest: js_sound_buyStock js_sound_buyOption js_sound_sellStock
      js_sound_closeOption)

lemma js_sound_load:
  "js_sound_file f \<Longrightarrow>
     js_sound (fst (js_loadPortfolio stamp f)) \<and> js_sound_file (snd (js_loadPortfolio stamp f))"
  by (cases f)
    (simp_all add: js_loadPortfolio_def Let_def js_sound_file_def js_sound_save js_sound_fresh
      js_sound_save [unfolded js_sound_file_def])

lemma js_sound_perform:
  assumes "rounds_nonneg rnd" "js_sound_file f" "js_nonneg_args op"
  shows "js_sound_file (snd (js_perform rnd ck op f))"
proof (cases "op = JsReset")
  case True
  then show ?thesis by (simp add: js_perform_def js_sound_save js_sound_fresh)
next
  case False
  obtain pf f1 where l: "js_loadPortfolio (initISO ck) f = (pf, f1)"
    by (cases "js_loadPortfolio (initISO ck) f")
  with js_sound_load [OF assms(2), of "initISO ck"] have s: "js_sound pf" "js_sound_file f1"
    by simp_all
  show ?thesis
  proof (cases "js_body rnd ck op pf")
    case (Inl e)
    with False l s show ?thesis by (simp add: js_perform_def)
  next
    case (Inr pf')
    with js_sound_body [OF assms(1) s(1) assms(3)] have "js_sound pf'" by blast
    with False l Inr show ?thesis by (simp add: js_perform_def js_sound_save)
  qed
qed

lemma js_sound_execute:
  "rounds_nonneg rnd \<Longrightarrow> js_sound_file f \<Longrightarrow> list_all (\<lambda>(ck, op). js_nonneg_args op) ops \<Longrightarrow>
     js_sound_file (js_execute rnd ops f)"
proof (induction ops arbitrary: f)
  case Nil
  then show ?case by simp
next
  case (Cons a ops)
  obtain ck op where a: "a = (ck, op)" by (cases a)
  with Cons.prems have "js_sound_file (snd (js_perform rnd ck op f))"
    by (simp add: js_sound_perform)
  with Cons.IH [of "snd (js_perform rnd ck op f)"] Cons.prems a show ?case by simp
qed

lemma js_sound_file_solvent: "js_sound_file f \<Longrightarrow> js_solvent f"
  by (cases f) (simp_all add: js_sound_file_def js_solvent_def)

text \<open>
  Claim C1, amended: in a run of trade operations from the fresh state (no file yet, or a
  new portfolio) in which the quantity of every open (shares, contracts) and the price of
  every close (current price, exit premium) satisfies \<^verbatim>\<open>x >= 0\<close>, the balance in the file
  is never negative after any operation: it is a number of at least zero, or \<^verbatim>\<open>null\<close>,
  which is written when the arithmetic gave \<^verbatim>\<open>NaN\<close> or \<^verbatim>\<open>Infinity\<close> (an infinite argument,
  or an overflow, as in \<^verbatim>\<open>Infinity * 0\<close>). This holds over JavaScript numbers, for every
  rounding that keeps results of at least zero at least zero.
\<close>

theorem solvency_nonneg_args:
  "rounds_nonneg rnd \<and> list_all (\<lambda>(ck, op). js_nonneg_args op) ops \<longrightarrow>
     (\<forall>n. js_solvent (js_execute rnd (take n ops) JsMissing)
        \<and> js_solvent (js_execute rnd (take n ops) (JsHolds (js_initializePortfolio stamp))))"
proof (intro impI allI)
  fix n
  assume a: "rounds_nonneg rnd \<and> list_all (\<lambda>(ck, op). js_nonneg_args op) ops"
  then have t: "list_all (\<lambda>(ck, op). js_nonneg_args op) (take n ops)"
    by (auto simp: list_all_iff dest: in_set_takeD)
  have "js_sound_file JsMissing" "js_sound_file (JsHolds (js_initializePortfolio stamp))"
    by (simp_all add: js_sound_file_def js_sound_def js_initializePortfolio_def)
  with a t show "js_solvent (js_execute rnd (take n ops) JsMissing)
        \<and> js_solvent (js_execute rnd (take n ops) (JsHolds (js_initializePortfolio stamp)))"
    by (simp add: js_sound_execute js_sound_file_solvent)
qed

theorem solvency_nonneg_args_witness:
  "rounds_nonneg exact_until_overflow
   \<and> list_all (\<lambda>(ck, op). js_nonneg_args op)
       [(new_year, JsOpenOption ''TSLA'' ''call'' (Fin 250) ''2026-01-01'' (Fin 5) (Fin 0)),
        (millisecond_later, JsCloseOption ''1767225600000'' (Fin (10 ^ 307)))]
   \<and> (\<forall>n. js_solvent (js_execute exact_until_overflow
          (take n [(new_year, JsOpenOption ''TSLA'' ''call'' (Fin 250) ''2026-01-01'' (Fin 5) (Fin 0)),
                   (millisecond_later, JsCloseOption ''1767225600000'' (Fin (10 ^ 307)))])
          JsMissing))
   \<and> list_all (\<lambda>(ck, op). js_nonneg_args op)
       [(new_year, JsOpenStock ''AAPL'' (Fin 100) (Fin 150)),
        (millisecond_later, JsCloseStock ''AAPL'' (Fin 160))]
   \<and> (\<forall>n. js_solvent (js_execute exact_until_overflow
          (take n [(new_year, JsOpenStock ''AAPL'' (Fin 100) (Fin 150)),
                   (millisecond_later, JsCloseStock ''AAPL'' (Fin 160))])
          JsMissing))"
proof -
  note r = rounds_nonneg_exact_until_overflow
  have h: "list_all (\<lambda>(ck, op). js_nonneg_args op)
       [(new_year, JsOpenOption ''TSLA'' ''call'' (Fin 250) ''2026-01-01'' (Fin 5) (Fin 0)),
        (millisecond_later, JsCloseOption ''1767225600000'' (Fin (10 ^ 307)))]"
    by simp
  have k: "list_all (\<lambda>(ck, op). js_nonneg_args op)
       [(new_year, JsOpenStock ''AAPL'' (Fin 100) (Fin 150)),
        (millisecond_later, JsCloseStock ''AAPL'' (Fin 160))]"
    by simp
  from solvency_nonneg_args [where rnd = exact_until_overflow
      and stamp = "''2025-12-31T00:00:00.000Z''"
      and ops = "[(new_year, JsOpenOption ''TSLA'' ''call'' (Fin 250) ''2026-01-01'' (Fin 5) (Fin 0)),
        (millisecond_later, JsCloseOption ''1767225600000'' (Fin (10 ^ 307)))]",
      THEN mp, OF conjI [OF r h]]
  have 1: "\<forall>n. js_solvent (js_execute exact_until_overflow
          (take n [(new_year, JsOpenOption ''TSLA'' ''call'' (Fin 250) ''2026-01-01'' (Fin 5) (Fin 0)),
                   (millisecond_later, JsCloseOption ''1767225600000'' (Fin (10 ^ 307)))])
          JsMissing)"
    by simp
  from solvency_nonneg_args [where rnd = exact_until_overflow
      and stamp = "''2025-12-31T00:00:00.000Z''"
      and ops = "[(new_year, JsOpenStock ''AAPL'' (Fin 100) (Fin 150)),
        (millisecond_later, JsCloseStock ''AAPL'' (Fin 160))]",
      THEN mp, OF conjI [OF r k]]
  have 2: "\<forall>n. js_solvent (js_execute exact_until_overflow
          (take n [(new_year, JsOpenStock ''AAPL'' (Fin 100) (Fin 150)),
                   (millisecond_later, JsCloseStock ''AAPL'' (Fin 160))])
          JsMissing)"
    by simp
  from r h 1 k 2 show ?thesis by (intro conjI)
qed

section \<open>Identifiers of open positions\<close>

text \<open>
  Claim C9: after every run of trade operations from a fresh ledger the open positions
  have pairwise distinct identifiers, also when two opens fall into the same clock
  millisecond. The identifier is \<^verbatim>\<open>Date.now().toString()\<close> and nothing else: two opens
  within one millisecond give two open positions with the same identifier, and
  \<^verbatim>\<open>closeOption\<close> with that identifier finds the stock position, so that the option
  cannot be closed while the stock is open.
\<close>

theorem same_millisecond_same_id:
  "execute [(new_year, OpenStock ''AAPL'' 100 150),
            (new_year, OpenOption ''TSLA'' ''call'' 250 ''2026-01-01'' 5 10)] Missing
     = Holds \<lparr>balance = 980000, openPositions = [aapl_lot, tsla_calls],
         closedTrades = [], totalPL = 0, createdAt = ''2026-01-01T00:00:00.000Z''\<rparr>
   \<and> map id_of [aapl_lot, tsla_calls] = [''1767225600000'', ''1767225600000'']
   \<and> \<not> distinct (map id_of [aapl_lot, tsla_calls])
   \<and> fst (closeOption millisecond_later ''1767225600000'' 8
          (Holds (holding 980000 [aapl_lot, tsla_calls]))) = Inl WrongPositionType"
  by (simp add: run_defs)

section \<open>Runs of two calls\<close>

lemma perform_Holds:
  "perform ck op (Holds pf) =
     (case transaction ck op pf of
        Inl e \<Rightarrow> (Inl e, Holds pf) | Inr (r, pf') \<Rightarrow> (Inr r, Holds pf'))"
  by (cases op)
    (auto simp: lift_result_def buyStock_def sellStock_def buyOption_def closeOption_def
      on_file_Holds resetPortfolio_def savePortfolio_def Let_def split: sum.splits)

lemma loadPortfolio_total:
  "\<exists>pf. loadPortfolio stamp f = (Inr pf, Holds pf)"
  by (cases f) (simp_all add: loadPortfolio_def readPortfolio_def savePortfolio_def Let_def)

lemma perform_after_load:
  "op \<noteq> Reset \<Longrightarrow> loadPortfolio (initISO ck) f = (Inr pf, f1) \<Longrightarrow>
     perform ck op f =
       (case transaction ck op pf of
          Inl e \<Rightarrow> (Inl e, f1) | Inr (r, pf') \<Rightarrow> (Inr r, Holds pf'))"
  by (cases op)
    (auto simp: lift_result_def buyStock_def sellStock_def buyOption_def closeOption_def
      on_file_def savePortfolio_def Let_def split: sum.splits)

lemma as_file_whole: "as_file (whole len p) = Holds p"
  by (simp add: as_file_def whole_def)

lemma as_file_written_after_open: "as_file (write_data len p (open_truncate d)) = Holds p"
  by (simp add: as_file_def write_data_def open_truncate_def)

lemma as_file_written_over:
  "as_file (write_data len q (write_data len p (open_truncate d))) =
     (if len p \<le> len q then Holds q else Corrupt)"
  by (simp add: as_file_def write_data_def open_truncate_def)

lemma read_step_load:
  "op \<noteq> Reset \<Longrightarrow> loadPortfolio (initISO ck) (as_file d) = (Inr pf, f1) \<Longrightarrow>
     fst (read_step len ck op d) = Inr pf \<and> as_file (snd (read_step len ck op d)) = f1"
  by (cases "as_file d")
    (auto simp: read_step_def loadPortfolio_def readPortfolio_def savePortfolio_def Let_def
      as_file_whole)

lemma whole_call_perform:
  assumes "pending s i = None"
  shows "as_file (stored (whole_call len i (ck, op) s)) = snd (perform ck op (as_file (stored s)))
   \<and> results (whole_call len i (ck, op) s) =
       (results s)(i \<mapsto> fst (perform ck op (as_file (stored s))))
   \<and> pending (whole_call len i (ck, op) s) = pending s"
proof (cases "op = Reset")
  case True
  with assms show ?thesis
    by (auto simp: whole_call_def begin_call_def commit_call_def open_call_def write_call_def
        read_step_def resetPortfolio_def savePortfolio_def Let_def as_file_written_after_open
        fun_upd_idem_iff)
next
  case False
  obtain pf where l: "loadPortfolio (initISO ck) (as_file (stored s)) = (Inr pf, Holds pf)"
    using loadPortfolio_total by blast
  from read_step_load [OF False l, of len]
  obtain d1 where r: "read_step len ck op (stored s) = (Inr pf, d1)" and d1: "as_file d1 = Holds pf"
    by (cases "read_step len ck op (stored s)") auto
  show ?thesis
  proof (cases "transaction ck op pf")
    case (Inl e)
    with False l r d1 assms show ?thesis
      by (simp add: whole_call_def begin_call_def commit_call_def open_call_def write_call_def
          perform_after_load)
  next
    case (Inr a)
    then obtain x pf' where "transaction ck op pf = Inr (x, pf')" by (cases a) simp
    with False l r d1 assms show ?thesis
      by (simp add: whole_call_def begin_call_def commit_call_def open_call_def write_call_def
          perform_after_load as_file_written_after_open fun_upd_idem_iff)
  qed
qed

lemma serial_schedule:
  "observed (run_events len [(cka, opa), (ckb, opb)] one_after_other (start d)) =
     (Some (fst (perform cka opa (as_file d))),
      Some (fst (perform ckb opb (snd (perform cka opa (as_file d))))),
      snd (perform ckb opb (snd (perform cka opa (as_file d)))))"
proof -
  define s1 where "s1 = whole_call len 0 (cka, opa) (start d)"
  have p0: "pending (start d) 0 = None" by (simp add: start_def)
  from whole_call_perform [OF p0, of len cka opa]
  have s1: "as_file (stored s1) = snd (perform cka opa (as_file d))"
    "results s1 = [0 \<mapsto> fst (perform cka opa (as_file d))]" "pending s1 = Map.empty"
    by (simp_all add: s1_def start_def)
  then have p1: "pending s1 (Suc 0) = None" by simp
  from whole_call_perform [OF p1, of len ckb opb] s1
  have "observed (whole_call len (Suc 0) (ckb, opb) s1) =
     (Some (fst (perform cka opa (as_file d))),
      Some (fst (perform ckb opb (snd (perform cka opa (as_file d))))),
      snd (perform ckb opb (snd (perform cka opa (as_file d)))))"
    by (simp add: observed_def)
  then show ?thesis
    by (simp add: one_after_other_def s1_def whole_call_def)
qed

lemma transaction_Reset_snapshot:
  "transaction ck op (if op = Reset then x else pf) = transaction ck op pf"
  by (cases op) simp_all

lemma begin_call_Holds:
  "as_file (stored s) = Holds pf \<Longrightarrow>
     begin_call len i (ck, op) s =
       s\<lparr>snapshots := (snapshots s)(i \<mapsto> (if op = Reset then initializePortfolio (initISO ck) else pf))\<rparr>"
  by (simp add: begin_call_def read_step_def loadPortfolio_Holds readPortfolio_def)

text \<open>The state after both reads of a file that holds a ledger.\<close>

lemma both_begun:
  assumes "as_file d = Holds pf"
  shows "\<exists>xa xb. begin_call len (Suc 0) (ckb, opb) (begin_call len 0 (cka, opa) (start d)) =
     \<lparr>stored = d, snapshots = [0 \<mapsto> xa, Suc 0 \<mapsto> xb], pending = Map.empty, results = Map.empty\<rparr>
     \<and> transaction cka opa xa = transaction cka opa pf
     \<and> transaction ckb opb xb = transaction ckb opb pf"
proof (intro exI conjI)
  show "begin_call len (Suc 0) (ckb, opb) (begin_call len 0 (cka, opa) (start d)) =
     \<lparr>stored = d,
      snapshots = [0 \<mapsto> (if opa = Reset then initializePortfolio (initISO cka) else pf),
                   Suc 0 \<mapsto> (if opb = Reset then initializePortfolio (initISO ckb) else pf)],
      pending = Map.empty, results = Map.empty\<rparr>"
    using assms by (simp add: begin_call_Holds start_def)
  show "transaction cka opa (if opa = Reset then initializePortfolio (initISO cka) else pf) =
      transaction cka opa pf"
    by (rule transaction_Reset_snapshot)
  show "transaction ckb opb (if opb = Reset then initializePortfolio (initISO ckb) else pf) =
      transaction ckb opb pf"
    by (rule transaction_Reset_snapshot)
qed

lemma overlapped_schedule:
  assumes "as_file d = Holds pf"
  shows "observed (run_events len [(cka, opa), (ckb, opb)] overlapped (start d)) =
     (Some (fst (perform cka opa (Holds pf))),
      Some (fst (perform ckb opb (Holds pf))),
      (if isl (fst (perform ckb opb (Holds pf))) then snd (perform cka opa (Holds pf))
       else snd (perform ckb opb (Holds pf))))"
proof -
  from both_begun [OF assms, of len ckb opb cka opa]
  obtain xa xb where
    s2: "begin_call len (Suc 0) (ckb, opb) (begin_call len 0 (cka, opa) (start d)) =
     \<lparr>stored = d, snapshots = [0 \<mapsto> xa, Suc 0 \<mapsto> xb], pending = Map.empty, results = Map.empty\<rparr>"
    and ta: "transaction cka opa xa = transaction cka opa pf"
    and tb: "transaction ckb opb xb = transaction ckb opb pf"
    by blast
  show ?thesis
  proof (cases "transaction cka opa pf")
    case a: (Inl ea)
    show ?thesis
    proof (cases "transaction ckb opb pf")
      case b: (Inl eb)
      from assms s2 ta tb a b show ?thesis
        by (simp add: overlapped_def observed_def commit_call_def open_call_def write_call_def
            perform_Holds)
    next
      case (Inr y)
      then obtain rb pb where b: "transaction ckb opb pf = Inr (rb, pb)" by (cases y) simp
      from assms s2 ta tb a b show ?thesis
        by (simp add: overlapped_def observed_def commit_call_def open_call_def write_call_def
            perform_Holds as_file_written_after_open)
    qed
  next
    case (Inr x)
    then obtain ra pa where a: "transaction cka opa pf = Inr (ra, pa)" by (cases x) simp
    show ?thesis
    proof (cases "transaction ckb opb pf")
      case b: (Inl eb)
      from assms s2 ta tb a b show ?thesis
        by (simp add: overlapped_def observed_def commit_call_def open_call_def write_call_def
            perform_Holds as_file_written_after_open)
    next
      case (Inr y)
      then obtain rb pb where b: "transaction ckb opb pf = Inr (rb, pb)" by (cases y) simp
      from assms s2 ta tb a b show ?thesis
        by (simp add: overlapped_def observed_def commit_call_def open_call_def write_call_def
            perform_Holds as_file_written_after_open)
    qed
  qed
qed

lemma writes_overlapped_schedule:
  assumes "as_file d = Holds pf"
    and "perform cka opa (Holds pf) = (Inr ra, Holds pa)"
    and "perform ckb opb (Holds pf) = (Inr rb, Holds pb)"
  shows "observed (run_events len [(cka, opa), (ckb, opb)] writes_overlapped (start d)) =
     (Some (Inr ra), Some (Inr rb), (if len pa \<le> len pb then Holds pb else Corrupt))"
proof -
  from both_begun [OF assms(1), of len ckb opb cka opa]
  obtain xa xb where
    s2: "begin_call len (Suc 0) (ckb, opb) (begin_call len 0 (cka, opa) (start d)) =
     \<lparr>stored = d, snapshots = [0 \<mapsto> xa, Suc 0 \<mapsto> xb], pending = Map.empty, results = Map.empty\<rparr>"
    and ta: "transaction cka opa xa = transaction cka opa pf"
    and tb: "transaction ckb opb xb = transaction ckb opb pf"
    by blast
  from assms(2) have a: "transaction cka opa pf = Inr (ra, pa)"
    by (auto simp: perform_Holds split: sum.splits)
  from assms(3) have b: "transaction ckb opb pf = Inr (rb, pb)"
    by (auto simp: perform_Holds split: sum.splits)
  from s2 ta tb a b show ?thesis
    by (simp add: writes_overlapped_def observed_def commit_call_def open_call_def write_call_def
        as_file_written_over)
qed

lemmas event_defs = one_after_other_def other_first_def overlapped_def writes_overlapped_def
  observed_def start_def begin_call_def commit_call_def open_call_def write_call_def
  read_step_def as_file_def whole_def open_truncate_def write_data_def

lemma overlapped_buys_trace:
  "observed (run_events sample_length two_buys overlapped (start (whole sample_length untouched))) =
     (Some (Inr (Opened \<lparr>position = Stock ''1767225600000'' ''AAPL'' 4000 150
                            ''2026-01-01T00:00:00.000Z'' 600000,
                         newBalance = 400000\<rparr>)),
      Some (Inr (Opened \<lparr>position = Stock ''1767225600001'' ''TSLA'' 2000 350
                            ''2026-01-01T00:00:00.001Z'' 700000,
                         newBalance = 300000\<rparr>)),
      Holds (holding 300000 [Stock ''1767225600001'' ''TSLA'' 2000 350
                            ''2026-01-01T00:00:00.001Z'' 700000]))"
  by (simp add: event_defs run_defs)

lemma serial_buys_trace:
  "observed (run_events sample_length two_buys one_after_other
      (start (whole sample_length untouched))) =
     (Some (Inr (Opened \<lparr>position = Stock ''1767225600000'' ''AAPL'' 4000 150
                            ''2026-01-01T00:00:00.000Z'' 600000,
                         newBalance = 400000\<rparr>)),
      Some (Inl InsufficientFunds),
      Holds (holding 400000 [Stock ''1767225600000'' ''AAPL'' 4000 150
                            ''2026-01-01T00:00:00.000Z'' 600000]))"
  by (simp add: event_defs run_defs)

lemma other_first_buys_trace:
  "observed (run_events sample_length two_buys other_first
      (start (whole sample_length untouched))) =
     (Some (Inl InsufficientFunds),
      Some (Inr (Opened \<lparr>position = Stock ''1767225600001'' ''TSLA'' 2000 350
                            ''2026-01-01T00:00:00.001Z'' 700000,
                         newBalance = 300000\<rparr>)),
      Holds (holding 300000 [Stock ''1767225600001'' ''TSLA'' 2000 350
                            ''2026-01-01T00:00:00.001Z'' 700000]))"
  by (simp add: event_defs run_defs)

text \<open>
  Claim C2, as stated: of two concurrent trade operations on one store, each one's read,
  change and write appear as one indivisible step to the other. From a balance of
  1,000,000, a purchase for 600,000 and a purchase for 700,000 that both read before either
  goes on are both checked against 1,000,000 and both answered with success; written one
  after the other, the file then holds the second purchase only, with a balance of 300,000.
  One after the other, in either order, the later of the two is refused for insufficient
  funds.
\<close>

theorem overlapping_buys_not_serial:
  "observed (run_events sample_length two_buys overlapped (start (whole sample_length untouched))) \<noteq>
     observed (run_events sample_length two_buys one_after_other
       (start (whole sample_length untouched)))
   \<and> observed (run_events sample_length two_buys overlapped
       (start (whole sample_length untouched))) \<noteq>
     observed (run_events sample_length two_buys other_first
       (start (whole sample_length untouched)))"
  by (simp add: overlapped_buys_trace serial_buys_trace other_first_buys_trace)

text \<open>
  Claim C2, amended: the store has no mutual exclusion, and two calls are indivisible to
  each other only when they do not overlap: when the first has written before the second
  reads, the run is the first call followed by the second. When both read a file that
  holds a ledger before either goes on, both are decided on that ledger, solvency check
  included, and both may succeed. If their writes then follow one another, the file is
  left by the later call that succeeded (by the earlier one when the later call failed),
  and the change of the other is lost. If their writes overlap as well (both files opened
  before either text is written), the file holds the ledger of the later writer when its
  text is at least as long as the other's, and otherwise text that is not JSON.
\<close>

theorem overlap_semantics:
  "observed (run_events len [(cka, opa), (ckb, opb)] one_after_other (start d)) =
     (Some (fst (perform cka opa (as_file d))),
      Some (fst (perform ckb opb (snd (perform cka opa (as_file d))))),
      snd (perform ckb opb (snd (perform cka opa (as_file d)))))
   \<and> (as_file d = Holds pf \<longrightarrow>
        observed (run_events len [(cka, opa), (ckb, opb)] overlapped (start d)) =
          (Some (fst (perform cka opa (Holds pf))),
           Some (fst (perform ckb opb (Holds pf))),
           (if isl (fst (perform ckb opb (Holds pf))) then snd (perform cka opa (Holds pf))
            else snd (perform ckb opb (Holds pf)))))
   \<and> (as_file d = Holds pf \<and> perform cka opa (Holds pf) = (Inr ra, Holds pa)
        \<and> perform ckb opb (Holds pf) = (Inr rb, Holds pb) \<longrightarrow>
        observed (run_events len [(cka, opa), (ckb, opb)] writes_overlapped (start d)) =
          (Some (Inr ra), Some (Inr rb), (if len pa \<le> len pb then Holds pb else Corrupt)))"
  using serial_schedule [of len cka opa ckb opb d]
    overlapped_schedule [of d pf len cka opa ckb opb]
    writes_overlapped_schedule [of d pf cka opa ra pa ckb opb rb pb len]
  by blast

text \<open>
  The two purchases with overlapping reads; and a purchase and a sale whose writes overlap
  too, where the sale's text, the shorter one, is written last.
\<close>

theorem overlap_semantics_witness:
  "observed (run_events sample_length two_buys overlapped (start (whole sample_length untouched))) =
     (Some (Inr (Opened \<lparr>position = Stock ''1767225600000'' ''AAPL'' 4000 150
                            ''2026-01-01T00:00:00.000Z'' 600000,
                         newBalance = 400000\<rparr>)),
      Some (Inr (Opened \<lparr>position = Stock ''1767225600001'' ''TSLA'' 2000 350
                            ''2026-01-01T00:00:00.001Z'' 700000,
                         newBalance = 300000\<rparr>)),
      Holds (holding 300000 [Stock ''1767225600001'' ''TSLA'' 2000 350
                            ''2026-01-01T00:00:00.001Z'' 700000]))
   \<and> observed (run_events sample_length
        [(new_year, OpenStock ''TSLA'' 100 350), (millisecond_later, CloseStock ''AAPL'' 160)]
        writes_overlapped (start (whole sample_length (holding 985000 [aapl_lot])))) =
     (Some (Inr (Opened \<lparr>position = tsla_lot, newBalance = 950000\<rparr>)),
      Some (Inr (Closed \<lparr>trade = \<lparr>closed = aapl_lot, exit_at = ExitPrice 160,
                     exitDate = ''2026-01-01T00:00:00.001Z'', proceeds = 16000,
                     profitLoss = 1000, percentReturn = Some (20 / 3)\<rparr>,
           closeBalance = 1001000\<rparr>)),
      Corrupt)"
proof -
  have d0: "as_file (whole sample_length untouched) = Holds untouched"
    by (simp add: as_file_def whole_def)
  have p0: "perform new_year (OpenStock ''AAPL'' 4000 150) (Holds untouched) =
      (Inr (Opened \<lparr>position = Stock ''1767225600000'' ''AAPL'' 4000 150
                            ''2026-01-01T00:00:00.000Z'' 600000,
                         newBalance = 400000\<rparr>),
       Holds (holding 400000 [Stock ''1767225600000'' ''AAPL'' 4000 150
                            ''2026-01-01T00:00:00.000Z'' 600000]))"
    by (simp add: run_defs)
  have p1: "perform millisecond_later (OpenStock ''TSLA'' 2000 350) (Holds untouched) =
      (Inr (Opened \<lparr>position = Stock ''1767225600001'' ''TSLA'' 2000 350
                            ''2026-01-01T00:00:00.001Z'' 700000,
                         newBalance = 300000\<rparr>),
       Holds (holding 300000 [Stock ''1767225600001'' ''TSLA'' 2000 350
                            ''2026-01-01T00:00:00.001Z'' 700000]))"
    by (simp add: run_defs)
  from overlap_semantics [where len = sample_length and cka = new_year
      and ckb = millisecond_later and opa = "OpenStock ''AAPL'' 4000 150"
      and opb = "OpenStock ''TSLA'' 2000 350" and d = "whole sample_length untouched"
      and pf = untouched, THEN conjunct2, THEN conjunct1, THEN mp, OF d0] p0 p1
  have 1: "observed (run_events sample_length two_buys overlapped
      (start (whole sample_length untouched))) =
     (Some (Inr (Opened \<lparr>position = Stock ''1767225600000'' ''AAPL'' 4000 150
                            ''2026-01-01T00:00:00.000Z'' 600000,
                         newBalance = 400000\<rparr>)),
      Some (Inr (Opened \<lparr>position = Stock ''1767225600001'' ''TSLA'' 2000 350
                            ''2026-01-01T00:00:00.001Z'' 700000,
                         newBalance = 300000\<rparr>)),
      Holds (holding 300000 [Stock ''1767225600001'' ''TSLA'' 2000 350
                            ''2026-01-01T00:00:00.001Z'' 700000]))"
    by simp
  have d1: "as_file (whole sample_length (holding 985000 [aapl_lot])) =
      Holds (holding 985000 [aapl_lot])"
    by (simp add: as_file_def whole_def)
  have q0: "perform new_year (OpenStock ''TSLA'' 100 350) (Holds (holding 985000 [aapl_lot])) =
      (Inr (Opened \<lparr>position = tsla_lot, newBalance = 950000\<rparr>),
       Holds (holding 950000 [aapl_lot, tsla_lot]))"
    by (simp add: run_defs)
  have q1: "perform millisecond_later (CloseStock ''AAPL'' 160)
        (Holds (holding 985000 [aapl_lot])) =
      (Inr (Closed \<lparr>trade = \<lparr>closed = aapl_lot, exit_at = ExitPrice 160,
                     exitDate = ''2026-01-01T00:00:00.001Z'', proceeds = 16000,
                     profitLoss = 1000, percentReturn = Some (20 / 3)\<rparr>,
           closeBalance = 1001000\<rparr>),
       Holds \<lparr>balance = 1001000, openPositions = [],
         closedTrades = [\<lparr>closed = aapl_lot, exit_at = ExitPrice 160,
                     exitDate = ''2026-01-01T00:00:00.001Z'', proceeds = 16000,
                     profitLoss = 1000, percentReturn = Some (20 / 3)\<rparr>],
         totalPL = 1000, createdAt = ''2025-12-31T00:00:00.000Z''\<rparr>)"
    by (simp add: run_defs)
  from overlap_semantics [where len = sample_length and cka = new_year
      and ckb = millisecond_later and opa = "OpenStock ''TSLA'' 100 350"
      and opb = "CloseStock ''AAPL'' 160"
      and d = "whole sample_length (holding 985000 [aapl_lot])"
      and pf = "holding 985000 [aapl_lot]", THEN conjunct2, THEN conjunct2, THEN mp,
      OF conjI [OF d1 conjI [OF q0 q1]]]
  have 2: "observed (run_events sample_length
        [(new_year, OpenStock ''TSLA'' 100 350), (millisecond_later, CloseStock ''AAPL'' 160)]
        writes_overlapped (start (whole sample_length (holding 985000 [aapl_lot])))) =
     (Some (Inr (Opened \<lparr>position = tsla_lot, newBalance = 950000\<rparr>)),
      Some (Inr (Closed \<lparr>trade = \<lparr>closed = aapl_lot, exit_at = ExitPrice 160,
                     exitDate = ''2026-01-01T00:00:00.001Z'', proceeds = 16000,
                     profitLoss = 1000, percentReturn = Some (20 / 3)\<rparr>,
           closeBalance = 1001000\<rparr>)),
      Corrupt)"
    by (simp add: sample_length_def)
  from 1 2 show ?thesis by (rule conjI)
qed

end
